theory Spec2Isabelle
  imports Complex_Main
begin

section \<open>JavaScript numbers\<close>

text \<open>
  A JavaScript \<open>number\<close> is an IEEE 754 double. A finite double is modelled by its exact
  rational value; the infinities and NaN are the one value \<open>NonFinite\<close>, which every
  operation of the handlers preserves; the sign of zero is not kept.
\<close>

datatype number = Num rat | NonFinite

text \<open>Rounding to the nearest integer, ties to the even one.\<close>

definition round_even :: "rat \<Rightarrow> int" where
  "round_even x =
     (let f = \<lfloor>x\<rfloor>; r = x - of_int f
      in if r < 1 / 2 then f else if 1 / 2 < r then f + 1 else if even f then f else f + 1)"

text \<open>
  A positive rational is scaled by powers of two into the range of a 53-bit significand:
  \<open>up\<close> doubles it, no further than the smallest exponent of a double (subnormals),
  \<open>down\<close> halves it. Both count the steps.
\<close>

function up :: "rat \<Rightarrow> nat \<Rightarrow> rat \<times> nat" where
  "up a k = (if a < 2 ^ 52 \<and> k < 1074 then up (2 * a) (Suc k) else (a, k))"
  by pat_completeness auto
termination
  by (relation "measure (\<lambda>(a, k). 1074 - k)") auto

function down :: "rat \<Rightarrow> nat \<Rightarrow> rat \<times> nat" where
  "down a k = (if 2 ^ 53 \<le> a then down (a / 2) (Suc k) else (a, k))"
  by pat_completeness auto
termination
proof (relation "measure (\<lambda>(a, k). nat \<lfloor>a\<rfloor>)")
  show "wf (measure (\<lambda>(a :: rat, k :: nat). nat \<lfloor>a\<rfloor>))" by simp
next
  fix a :: rat and k :: nat
  assume a: "2 ^ 53 \<le> a"
  then have "2 \<le> a" by simp
  then have "a / 2 \<le> a - 1" by simp
  then have "\<lfloor>a / 2\<rfloor> \<le> \<lfloor>a - 1\<rfloor>" by (rule floor_mono)
  moreover have "1 \<le> \<lfloor>a\<rfloor>" using \<open>2 \<le> a\<close> by linarith
  ultimately show "((a / 2, Suc k), (a, k)) \<in> measure (\<lambda>(a, k). nat \<lfloor>a\<rfloor>)"
    by simp
qed

declare up.simps [simp del] down.simps [simp del]

text \<open>The nearest value with a 53-bit significand to a positive rational.\<close>

definition nearest :: "rat \<Rightarrow> rat" where
  "nearest a =
     (if 2 ^ 53 \<le> a then (case down a 0 of (b, k) \<Rightarrow> of_int (round_even b) * 2 ^ k)
      else (case up a 0 of (b, k) \<Rightarrow> of_int (round_even b) / 2 ^ k))"

text \<open>The double an exact result is rounded to; from \<open>2 ^ 1024\<close> on it is infinite.\<close>

definition to_double :: "rat \<Rightarrow> number" where
  "to_double x =
     (if x = 0 then Num 0
      else if 2 ^ 1024 \<le> nearest \<bar>x\<bar> then NonFinite
      else Num (sgn x * nearest \<bar>x\<bar>))"

text \<open>\<open>x + y\<close>, \<open>x * y\<close> and \<open>x / 100\<close> on numbers.\<close>

fun add :: "number \<Rightarrow> number \<Rightarrow> number" where
  "add (Num x) (Num y) = to_double (x + y)"
| "add _ _ = NonFinite"

fun mul :: "number \<Rightarrow> number \<Rightarrow> number" where
  "mul (Num x) (Num y) = to_double (x * y)"
| "mul _ _ = NonFinite"

fun div100 :: "number \<Rightarrow> number" where
  "div100 (Num x) = to_double (x / 100)"
| "div100 NonFinite = NonFinite"

section \<open>Invoice routes: data model\<close>

text \<open>
  The invoice router (create, update and delete handlers) and the Prisma schema it writes to.
  Request bodies are JSON values; a number is carried as the decimal literal of the body, which
  \<open>JSON.parse\<close> turns into the nearest double. An object is the list of its key/value
  pairs, each key once.
\<close>

datatype json =
    JNull
  | JBool bool
  | JNum rat
  | JStr string
  | JArr "json list"
  | JObj "(string \<times> json) list"

text \<open>\<open>enum InvoiceStatus\<close> of the schema.\<close>

datatype InvoiceStatus = UNPAID | PAID | OVERDUE | CANCELLED

text \<open>
  A \<open>DateTime\<close> value is either the instant a string denotes (\<open>new Date(s)\<close>, or an ISO
  string handed to Prisma) or a reading of the server clock (\<open>new Date()\<close>).
\<close>

datatype datetime = DateOf string | Clock nat

text \<open>\<open>model InvoiceItem\<close>: \<open>quantity Int\<close>, \<open>price Float\<close>, \<open>amount Float\<close>.\<close>

record InvoiceItem =
  item_description :: string
  item_quantity :: int
  item_price :: number
  item_amount :: number

text \<open>
  \<open>model Invoice\<close> with its owned items; \<open>createdAt\<close> and \<open>updatedAt\<close> are bookkeeping
  columns no handler reads and are left out.
\<close>

record Invoice =
  inv_id :: string
  inv_number :: string
  inv_date :: datetime
  inv_dueDate :: datetime
  inv_status :: InvoiceStatus
  inv_subtotal :: number
  inv_tax :: number
  inv_total :: number
  inv_notes :: "string option"
  inv_paymentProof :: "string option"
  inv_paidAt :: "datetime option"
  inv_userId :: string
  inv_customerId :: string
  inv_items :: "InvoiceItem list"

text \<open>\<open>model Settings\<close>: \<open>userId String @unique\<close>, \<open>invoicePrefix String?\<close>,
  \<open>nextInvoiceNumber Int @default(1)\<close>.\<close>

record Settings =
  set_userId :: string
  set_invoicePrefix :: "string option"
  set_nextInvoiceNumber :: int

text \<open>The two tables the handlers touch, rows in insertion order.\<close>

record db =
  invoices :: "Invoice list"
  settings :: "Settings list"

text \<open>
  Every Prisma call is awaited inside \<open>try\<close>/\<open>catch\<close> and may reject for reasons outside the
  handler (connection loss, a foreign key, a column range). The environment of one request
  says which calls reject, what the clock reads, which id the database generates for
  \<open>@default(uuid())\<close>, and which strings zod's \<open>.datetime()\<close> accepts.
\<close>

datatype db_call =
    SettingsFindUnique
  | InvoiceCreate
  | SettingsUpdate
  | InvoiceFindUnique
  | InvoiceUpdate
  | InvoiceDelete

record env =
  now :: nat
  uuid :: string
  is_datetime :: "string \<Rightarrow> bool"
  throws :: "db_call \<Rightarrow> bool"

text \<open>
  What a handler hands back: a JSON success body, \<open>res.status(c).json({success: false,
  message})\<close>, or \<open>next(error)\<close> for the error middleware.
\<close>

datatype error = ZodError | AppError nat string | PrismaError

datatype response =
    Success Invoice
  | SuccessNull
  | Status nat string
  | Next error

section \<open>Request schemas\<close>

text \<open>Parsed \<open>createInvoiceSchema\<close> data.\<close>

record item_input =
  in_description :: string
  in_quantity :: number
  in_price :: number

record create_data =
  cd_customerId :: string
  cd_date :: string
  cd_dueDate :: string
  cd_items :: "item_input list"
  cd_notes :: "string option"
  cd_taxRate :: number

text \<open>\<open>z.number()\<close> accepts every number \<open>JSON.parse\<close> can deliver.
  \<open>z.object({description: z.string(), quantity: z.number(), price: z.number()})\<close>\<close>

fun item_schema :: "json \<Rightarrow> item_input option" where
  "item_schema (JObj kv) =
     (case (map_of kv ''description'', map_of kv ''quantity'', map_of kv ''price'') of
        (Some (JStr d), Some (JNum q), Some (JNum p)) \<Rightarrow>
          Some \<lparr>in_description = d, in_quantity = to_double q, in_price = to_double p\<rparr>
      | _ \<Rightarrow> None)"
| "item_schema _ = None"

text \<open>\<open>z.array(...)\<close>: every element must parse.\<close>

fun array_schema :: "(json \<Rightarrow> 'a option) \<Rightarrow> json list \<Rightarrow> 'a list option" where
  "array_schema f [] = Some []"
| "array_schema f (j # js) =
     (case f j of
        None \<Rightarrow> None
      | Some x \<Rightarrow> (case array_schema f js of None \<Rightarrow> None | Some xs \<Rightarrow> Some (x # xs)))"

text \<open>\<open>z.string().optional()\<close>: the key is absent, or holds a string.\<close>

fun optional_string :: "json option \<Rightarrow> string option option" where
  "optional_string None = Some None"
| "optional_string (Some (JStr s)) = Some (Some s)"
| "optional_string (Some _) = None"

text \<open>\<open>createInvoiceSchema.parse\<close>; \<open>None\<close> is the thrown \<open>ZodError\<close>.\<close>

fun createInvoiceSchema :: "json \<Rightarrow> create_data option" where
  "createInvoiceSchema (JObj kv) =
     (case (map_of kv ''customerId'', map_of kv ''date'', map_of kv ''dueDate'',
            map_of kv ''items'', map_of kv ''taxRate'') of
        (Some (JStr c), Some (JStr dt), Some (JStr due), Some (JArr js), Some (JNum t)) \<Rightarrow>
          (case (array_schema item_schema js, optional_string (map_of kv ''notes'')) of
             (Some its, Some n) \<Rightarrow>
               Some \<lparr>cd_customerId = c, cd_date = dt, cd_dueDate = due, cd_items = its,
                     cd_notes = n, cd_taxRate = to_double t\<rparr>
           | _ \<Rightarrow> None)
      | _ \<Rightarrow> None)"
| "createInvoiceSchema _ = None"

section \<open>Invoice numbers\<close>

text \<open>\<open>String(n)\<close> for an integer: decimal digits, with a minus sign when negative.\<close>

fun digits :: "nat \<Rightarrow> string" where
  "digits n =
     (if n < 10 then [''0123456789'' ! n]
      else digits (n div 10) @ [''0123456789'' ! (n mod 10)])"

declare digits.simps [simp del]

definition String :: "int \<Rightarrow> string" where
  "String n = (if n < 0 then CHR ''-'' # digits (nat (- n)) else digits (nat n))"

text \<open>\<open>s.padStart(w, c)\<close> with a one-character pad.\<close>

definition padStart :: "nat \<Rightarrow> char \<Rightarrow> string \<Rightarrow> string" where
  "padStart w c s = replicate (w - length s) c @ s"

text \<open>\<open>settings.invoicePrefix || "INV"\<close>: \<open>null\<close> and the empty string are falsy.\<close>

definition invoicePrefix :: "Settings \<Rightarrow> string" where
  "invoicePrefix s =
     (case set_invoicePrefix s of
        None \<Rightarrow> ''INV''
      | Some p \<Rightarrow> if p = [] then ''INV'' else p)"

definition invoiceNumber :: "Settings \<Rightarrow> string" where
  "invoiceNumber s = invoicePrefix s @ padStart 5 (CHR ''0'') (String (set_nextInvoiceNumber s))"

section \<open>Persistence calls\<close>

text \<open>\<open>prisma.settings.findUnique({where: {userId}})\<close>\<close>

definition prisma_settings_findUnique :: "env \<Rightarrow> string \<Rightarrow> db \<Rightarrow> error + Settings option" where
  "prisma_settings_findUnique e userId d =
     (if throws e SettingsFindUnique then Inl PrismaError
      else Inr (find (\<lambda>s. set_userId s = userId) (settings d)))"

text \<open>The \<open>data\<close> argument of \<open>prisma.invoice.create\<close>, items nested.\<close>

record item_create =
  new_description :: string
  new_quantity :: number
  new_price :: number
  new_amount :: number

record invoice_create_data =
  new_number :: string
  new_date :: datetime
  new_dueDate :: datetime
  new_subtotal :: number
  new_tax :: number
  new_total :: number
  new_notes :: "string option"
  new_userId :: string
  new_customerId :: string
  new_items :: "item_create list"

text \<open>
  The \<open>Int\<close> column \<open>quantity\<close> takes a finite number truncated toward zero; a number
  that is not finite has no \<open>Int\<close> value (the second equation is never used: the insert
  rejects such a quantity). A value outside the range of the column is among the rejections
  of the environment.
\<close>

fun Int_value :: "number \<Rightarrow> int" where
  "Int_value (Num r) = (if 0 \<le> r then \<lfloor>r\<rfloor> else \<lceil>r\<rceil>)"
| "Int_value NonFinite = 0"

definition item_row :: "item_create \<Rightarrow> InvoiceItem" where
  "item_row it =
     \<lparr>item_description = new_description it, item_quantity = Int_value (new_quantity it),
      item_price = new_price it, item_amount = new_amount it\<rparr>"

text \<open>The row \<open>prisma.invoice.create\<close> inserts: \<open>status\<close> takes its default \<open>UNPAID\<close>, the
  optional columns \<open>paymentProof\<close> and \<open>paidAt\<close> are null, \<open>id\<close> is generated.\<close>

definition invoice_row :: "string \<Rightarrow> invoice_create_data \<Rightarrow> Invoice" where
  "invoice_row i c =
     \<lparr>inv_id = i, inv_number = new_number c, inv_date = new_date c,
      inv_dueDate = new_dueDate c, inv_status = UNPAID, inv_subtotal = new_subtotal c,
      inv_tax = new_tax c, inv_total = new_total c, inv_notes = new_notes c,
      inv_paymentProof = None, inv_paidAt = None, inv_userId = new_userId c,
      inv_customerId = new_customerId c, inv_items = map item_row (new_items c)\<rparr>"

text \<open>
  \<open>prisma.invoice.create\<close>: rejects when the call fails, when a quantity is not finite,
  when the primary key is taken, or when \<open>@@unique([userId, number])\<close> is violated; otherwise
  the invoice and its items are inserted together and the row is returned.
\<close>

definition prisma_invoice_create :: "env \<Rightarrow> invoice_create_data \<Rightarrow> db \<Rightarrow> error + (Invoice \<times> db)" where
  "prisma_invoice_create e c d =
     (if throws e InvoiceCreate then Inl PrismaError
      else if \<exists>it \<in> set (new_items c). new_quantity it = NonFinite then Inl PrismaError
      else if \<exists>r \<in> set (invoices d). inv_id r = uuid e then Inl PrismaError
      else if \<exists>r \<in> set (invoices d). inv_userId r = new_userId c \<and> inv_number r = new_number c
        then Inl PrismaError
      else let row = invoice_row (uuid e) c
           in Inr (row, d\<lparr>invoices := invoices d @ [row]\<rparr>))"

text \<open>\<open>prisma.settings.update({where: {userId}, data: {nextInvoiceNumber: {increment: 1}}})\<close>\<close>

definition increment :: "string \<Rightarrow> Settings \<Rightarrow> Settings" where
  "increment userId s =
     (if set_userId s = userId
      then s\<lparr>set_nextInvoiceNumber := set_nextInvoiceNumber s + 1\<rparr> else s)"

definition prisma_settings_update :: "env \<Rightarrow> string \<Rightarrow> db \<Rightarrow> error + db" where
  "prisma_settings_update e userId d =
     (if throws e SettingsUpdate then Inl PrismaError
      else if \<not> (\<exists>s \<in> set (settings d). set_userId s = userId) then Inl PrismaError
      else Inr (d\<lparr>settings := map (increment userId) (settings d)\<rparr>))"

section \<open>Create invoice\<close>

text \<open>The \<open>reduce\<close> over the items, starting from 0.\<close>

definition subtotal_of :: "item_input list \<Rightarrow> number" where
  "subtotal_of its =
     foldl (\<lambda>sum item. add sum (mul (in_quantity item) (in_price item))) (Num 0) its"

definition item_of :: "item_input \<Rightarrow> item_create" where
  "item_of item =
     \<lparr>new_description = in_description item, new_quantity = in_quantity item,
      new_price = in_price item, new_amount = mul (in_quantity item) (in_price item)\<rparr>"

text \<open>
  \<open>router.post("/")\<close>: parse, compute the totals, read the settings, build the number,
  insert the invoice, then increment the counter. The two writes are two separate awaited
  calls; an error at any point goes to \<open>next(error)\<close> and nothing is undone.
\<close>

definition create_invoice :: "env \<Rightarrow> string \<Rightarrow> json \<Rightarrow> db \<Rightarrow> response \<times> db" where
  "create_invoice e userId body d =
     (case createInvoiceSchema body of
        None \<Rightarrow> (Next ZodError, d)
      | Some data \<Rightarrow>
          let subtotal = subtotal_of (cd_items data);
              tax = div100 (mul subtotal (cd_taxRate data));
              total = add subtotal tax
          in (case prisma_settings_findUnique e userId d of
                Inl err \<Rightarrow> (Next err, d)
              | Inr None \<Rightarrow> (Next (AppError 400 ''User settings not found''), d)
              | Inr (Some s) \<Rightarrow>
                  (case prisma_invoice_create e
                          \<lparr>new_number = invoiceNumber s, new_date = DateOf (cd_date data),
                           new_dueDate = DateOf (cd_dueDate data), new_subtotal = subtotal,
                           new_tax = tax, new_total = total, new_notes = cd_notes data,
                           new_userId = userId, new_customerId = cd_customerId data,
                           new_items = map item_of (cd_items data)\<rparr> d of
                     Inl err \<Rightarrow> (Next err, d)
                   | Inr (invoice, d1) \<Rightarrow>
                       (case prisma_settings_update e userId d1 of
                          Inl err \<Rightarrow> (Next err, d1)
                        | Inr d2 \<Rightarrow> (Success invoice, d2)))))"

section \<open>Update invoice\<close>

text \<open>
  Parsed \<open>updateInvoiceSchema\<close> data. For an optional key \<open>None\<close> is "key absent"; for the
  nullable keys \<open>Some None\<close> is an explicit \<open>null\<close>.
\<close>

record update_data =
  ud_status :: "InvoiceStatus option"
  ud_paymentProof :: "string option option"
  ud_paymentNote :: "string option option"
  ud_dueDate :: "string option"
  ud_notes :: "string option"
  ud_paidAt :: "datetime option"

text \<open>\<open>z.enum(["UNPAID", "PAID", "OVERDUE", "CANCELLED"]).optional()\<close>\<close>

fun optional_status :: "json option \<Rightarrow> InvoiceStatus option option" where
  "optional_status None = Some None"
| "optional_status (Some (JStr s)) =
     (if s = ''UNPAID'' then Some (Some UNPAID)
      else if s = ''PAID'' then Some (Some PAID)
      else if s = ''OVERDUE'' then Some (Some OVERDUE)
      else if s = ''CANCELLED'' then Some (Some CANCELLED)
      else None)"
| "optional_status (Some _) = None"

text \<open>\<open>z.string().nullable().optional()\<close>\<close>

fun optional_nullable_string :: "json option \<Rightarrow> string option option option" where
  "optional_nullable_string None = Some None"
| "optional_nullable_string (Some JNull) = Some (Some None)"
| "optional_nullable_string (Some (JStr s)) = Some (Some (Some s))"
| "optional_nullable_string (Some _) = None"

text \<open>\<open>z.string().datetime().optional()\<close>\<close>

fun optional_datetime :: "env \<Rightarrow> json option \<Rightarrow> string option option" where
  "optional_datetime e None = Some None"
| "optional_datetime e (Some (JStr s)) = (if is_datetime e s then Some (Some s) else None)"
| "optional_datetime e (Some _) = None"

text \<open>The transform on \<open>paidAt\<close>: \<open>val ? new Date(val) : undefined\<close>.\<close>

fun paidAt_transform :: "string option \<Rightarrow> datetime option" where
  "paidAt_transform None = None"
| "paidAt_transform (Some val) = (if val = [] then None else Some (DateOf val))"

text \<open>\<open>updateInvoiceSchema.safeParse\<close>; \<open>None\<close> is \<open>success: false\<close>.\<close>

fun updateInvoiceSchema :: "env \<Rightarrow> json \<Rightarrow> update_data option" where
  "updateInvoiceSchema e (JObj kv) =
     (case (optional_status (map_of kv ''status''),
            optional_nullable_string (map_of kv ''paymentProof''),
            optional_nullable_string (map_of kv ''paymentNote''),
            optional_datetime e (map_of kv ''dueDate''),
            optional_string (map_of kv ''notes''),
            optional_datetime e (map_of kv ''paidAt'')) of
        (Some st, Some proof, Some note, Some due, Some n, Some paid) \<Rightarrow>
          Some \<lparr>ud_status = st, ud_paymentProof = proof, ud_paymentNote = note,
                ud_dueDate = due, ud_notes = n, ud_paidAt = paidAt_transform paid\<rparr>
      | _ \<Rightarrow> None)"
| "updateInvoiceSchema e _ = None"

text \<open>
  \<open>finalUpdateData\<close>, the \<open>data\<close> argument of \<open>prisma.invoice.update\<close>. A field that is
  \<open>None\<close> is \<open>undefined\<close> and Prisma leaves its column alone; \<open>Some None\<close> writes \<open>null\<close>.
\<close>

record final_update_data =
  fd_status :: "InvoiceStatus option"
  fd_paymentProof :: "string option option"
  fd_dueDate :: "string option"
  fd_notes :: "string option option"
  fd_paidAt :: "datetime option"

text \<open>
  The spread of the parsed data with \<open>notes\<close> overridden by
  \<open>'paymentNote' in data ? data.paymentNote : undefined\<close>, \<open>paymentProof\<close> copied, and the
  \<open>paymentNote\<close> key deleted.
\<close>

definition finalUpdateData :: "update_data \<Rightarrow> final_update_data" where
  "finalUpdateData u =
     \<lparr>fd_status = ud_status u, fd_paymentProof = ud_paymentProof u, fd_dueDate = ud_dueDate u,
      fd_notes = (case ud_paymentNote u of None \<Rightarrow> None | Some v \<Rightarrow> Some v),
      fd_paidAt = ud_paidAt u\<rparr>"

text \<open>\<open>if (finalUpdateData.status === "PAID" && invoice.status !== "PAID") paidAt = new Date()\<close>\<close>

definition stamp_paidAt :: "env \<Rightarrow> Invoice \<Rightarrow> final_update_data \<Rightarrow> final_update_data" where
  "stamp_paidAt e invoice f =
     (if fd_status f = Some PAID \<and> inv_status invoice \<noteq> PAID
      then f\<lparr>fd_paidAt := Some (Clock (now e))\<rparr> else f)"

text \<open>What the update writes into one row.\<close>

definition apply_update :: "final_update_data \<Rightarrow> Invoice \<Rightarrow> Invoice" where
  "apply_update f r =
     r\<lparr>inv_status := (case fd_status f of None \<Rightarrow> inv_status r | Some s \<Rightarrow> s),
       inv_paymentProof := (case fd_paymentProof f of None \<Rightarrow> inv_paymentProof r | Some v \<Rightarrow> v),
       inv_dueDate := (case fd_dueDate f of None \<Rightarrow> inv_dueDate r | Some s \<Rightarrow> DateOf s),
       inv_notes := (case fd_notes f of None \<Rightarrow> inv_notes r | Some v \<Rightarrow> v),
       inv_paidAt := (case fd_paidAt f of None \<Rightarrow> inv_paidAt r | Some t \<Rightarrow> Some t)\<rparr>"

text \<open>The fields and relations of \<open>model User\<close> in the schema.\<close>

definition User_fields :: "string list" where
  "User_fields =
     [''id'', ''email'', ''password'', ''businessName'', ''avatar'', ''businessLogo'',
      ''businessEmail'', ''businessPhone'', ''businessAddress'', ''personalPhone'',
      ''createdAt'', ''updatedAt'', ''isActive'', ''role'', ''invoices'', ''customers'',
      ''payments'', ''settings'', ''isGoogleUser'', ''hasPassword'']"

text \<open>
  \<open>prisma.invoice.findUnique({where: {id}, include: {user: {select}, customer: true,
  items: true}})\<close>: the lookup is by id alone. \<open>select\<close> lists the fields asked of the
  invoice's user; Prisma rejects a query that selects a field the model does not have.
\<close>

definition prisma_invoice_findUnique :: "env \<Rightarrow> string list \<Rightarrow> string \<Rightarrow> db \<Rightarrow> error + Invoice option" where
  "prisma_invoice_findUnique e select i d =
     (if throws e InvoiceFindUnique then Inl PrismaError
      else if \<not> list_all (\<lambda>f. f \<in> set User_fields) select then Inl PrismaError
      else Inr (find (\<lambda>r. inv_id r = i) (invoices d)))"

text \<open>\<open>prisma.invoice.update({where: {id}, data})\<close>: rejects when no row has the id.\<close>

definition prisma_invoice_update :: "env \<Rightarrow> string \<Rightarrow> final_update_data \<Rightarrow> db \<Rightarrow> error + (Invoice \<times> db)" where
  "prisma_invoice_update e i f d =
     (if throws e InvoiceUpdate then Inl PrismaError
      else (case find (\<lambda>r. inv_id r = i) (invoices d) of
              None \<Rightarrow> Inl PrismaError
            | Some r \<Rightarrow>
                Inr (apply_update f r,
                     d\<lparr>invoices :=
                         map (\<lambda>r. if inv_id r = i then apply_update f r else r) (invoices d)\<rparr>)))"

text \<open>
  \<open>router.patch("/:id")\<close>. \<open>caller\<close> is the authenticated \<open>req.user.id\<close>; the handler never
  reads it. The lookup selects \<open>name\<close>, \<open>email\<close>, \<open>businessName\<close>, \<open>address\<close> and
  \<open>phone\<close> of the user. Any exception is caught and answered with status 500.
\<close>

definition update_invoice :: "env \<Rightarrow> string \<Rightarrow> string \<Rightarrow> json \<Rightarrow> db \<Rightarrow> response \<times> db" where
  "update_invoice e caller i body d =
     (case updateInvoiceSchema e body of
        None \<Rightarrow> (Status 400 ''Data tidak valid'', d)
      | Some u \<Rightarrow>
          (case prisma_invoice_findUnique e
                  [''name'', ''email'', ''businessName'', ''address'', ''phone''] i d of
             Inl err \<Rightarrow> (Status 500 ''Gagal memperbarui faktur'', d)
           | Inr None \<Rightarrow> (Status 404 ''Faktur tidak ditemukan'', d)
           | Inr (Some invoice) \<Rightarrow>
               if inv_status invoice = PAID \<and> ud_status u \<noteq> Some CANCELLED
               then (Status 400 ''Faktur yang sudah lunas tidak dapat diubah statusnya'', d)
               else if inv_status invoice = CANCELLED
               then (Status 400 ''Faktur yang sudah dibatalkan tidak dapat diubah'', d)
               else (case prisma_invoice_update e i (stamp_paidAt e invoice (finalUpdateData u)) d of
                       Inl err \<Rightarrow> (Status 500 ''Gagal memperbarui faktur'', d)
                     | Inr (updatedInvoice, d1) \<Rightarrow> (Success updatedInvoice, d1))))"

section \<open>Delete invoice\<close>

text \<open>\<open>prisma.invoice.delete({where: {id, userId}})\<close>: rejects when no such row exists.\<close>

definition delete_invoice :: "env \<Rightarrow> string \<Rightarrow> string \<Rightarrow> db \<Rightarrow> response \<times> db" where
  "delete_invoice e userId i d =
     (if throws e InvoiceDelete then (Next PrismaError, d)
      else if \<exists>r \<in> set (invoices d). inv_id r = i \<and> inv_userId r = userId
      then (SuccessNull,
            d\<lparr>invoices := filter (\<lambda>r. \<not> (inv_id r = i \<and> inv_userId r = userId)) (invoices d)\<rparr>)
      else (Next PrismaError, d))"

section \<open>Sequences of requests\<close>

text \<open>Requests served one after the other, each with its own environment.\<close>

datatype request =
    Create env string json
  | Update env string string json
  | Delete env string string

fun handle :: "request \<Rightarrow> db \<Rightarrow> response \<times> db" where
  "handle (Create e userId body) d = create_invoice e userId body d"
| "handle (Update e caller i body) d = update_invoice e caller i body d"
| "handle (Delete e userId i) d = delete_invoice e userId i d"

fun run :: "request list \<Rightarrow> db \<Rightarrow> response list \<times> db" where
  "run [] d = ([], d)"
| "run (r # rs) d =
     (case handle r d of
        (x, d1) \<Rightarrow> (case run rs d1 of (xs, d2) \<Rightarrow> (x # xs, d2)))"

section \<open>Derived notions used in the statements\<close>

text \<open>The row a create call inserts for parsed data and the tenant's settings row, written out.\<close>

definition created_row :: "env \<Rightarrow> string \<Rightarrow> create_data \<Rightarrow> Settings \<Rightarrow> Invoice" where
  "created_row e userId data s =
     invoice_row (uuid e)
       \<lparr>new_number = invoiceNumber s, new_date = DateOf (cd_date data),
        new_dueDate = DateOf (cd_dueDate data), new_subtotal = subtotal_of (cd_items data),
        new_tax = div100 (mul (subtotal_of (cd_items data)) (cd_taxRate data)),
        new_total =
          add (subtotal_of (cd_items data))
            (div100 (mul (subtotal_of (cd_items data)) (cd_taxRate data))),
        new_notes = cd_notes data, new_userId = userId,
        new_customerId = cd_customerId data, new_items = map item_of (cd_items data)\<rparr>"

text \<open>
  The exact value of a finite number, whether a number is an integer, and the exact product
  of an item's quantity and price.
\<close>

fun value_of :: "number \<Rightarrow> rat" where
  "value_of (Num r) = r"
| "value_of NonFinite = 0"

fun integer_number :: "number \<Rightarrow> bool" where
  "integer_number (Num r) = (of_int \<lfloor>r\<rfloor> = r)"
| "integer_number NonFinite = False"

definition exact_amount :: "item_input \<Rightarrow> rat" where
  "exact_amount i = value_of (in_quantity i) * value_of (in_price i)"

text \<open>The invoice number read back as a decimal numeral.\<close>

definition decimal_value :: "string \<Rightarrow> nat" where
  "decimal_value s = foldl (\<lambda>a c. 10 * a + (of_char c - 48)) 0 s"

text \<open>The tenant's settings row, and the key of \<open>@@unique([userId, number])\<close>.\<close>

definition settings_of :: "db \<Rightarrow> string \<Rightarrow> Settings option" where
  "settings_of d userId = find (\<lambda>s. set_userId s = userId) (settings d)"

definition invoice_key :: "Invoice \<Rightarrow> string \<times> string" where
  "invoice_key r = (inv_userId r, inv_number r)"

text \<open>The numbers handed out to a tenant by the create calls of a run that answered success,
  in the order of the calls.\<close>

fun created :: "string \<Rightarrow> request \<times> response \<Rightarrow> string list" where
  "created u (Create e v body, Success r) = (if v = u then [inv_number r] else [])"
| "created u _ = []"

definition created_numbers :: "string \<Rightarrow> request list \<Rightarrow> response list \<Rightarrow> string list" where
  "created_numbers u reqs resps = concat (map (created u) (zip reqs resps))"

text \<open>The numbers a settings row yields for \<open>m\<close> consecutive counter values.\<close>

definition numbers_from :: "Settings \<Rightarrow> nat \<Rightarrow> string list" where
  "numbers_from s m =
     map (\<lambda>k. invoiceNumber (s\<lparr>set_nextInvoiceNumber := set_nextInvoiceNumber s + int k\<rparr>)) [0..<m]"

section \<open>Example requests and states\<close>

definition item_json :: "string \<Rightarrow> rat \<Rightarrow> rat \<Rightarrow> json" where
  "item_json d q p = JObj [(''description'', JStr d), (''quantity'', JNum q), (''price'', JNum p)]"

definition create_body :: "json list \<Rightarrow> rat \<Rightarrow> json" where
  "create_body its t =
     JObj [(''customerId'', JStr ''c1''), (''date'', JStr ''2024-01-01''),
           (''dueDate'', JStr ''2024-02-01''), (''items'', JArr its), (''taxRate'', JNum t)]"

definition ex_env :: env where
  "ex_env = \<lparr>now = 1000, uuid = ''id-1'', is_datetime = (\<lambda>s. True), throws = (\<lambda>c. False)\<rparr>"

definition ex_settings :: "int \<Rightarrow> Settings list" where
  "ex_settings n = [\<lparr>set_userId = ''alice'', set_invoicePrefix = Some ''INV'',
                         set_nextInvoiceNumber = n\<rparr>]"

definition ex_db :: db where
  "ex_db = \<lparr>invoices = [], settings = ex_settings 7\<rparr>"

definition ex_body :: json where
  "ex_body = create_body [item_json ''A'' 2 100, item_json ''B'' 1 50] 10"

definition ex_data :: create_data where
  "ex_data = \<lparr>cd_customerId = ''c1'', cd_date = ''2024-01-01'', cd_dueDate = ''2024-02-01'',
      cd_items = [\<lparr>in_description = ''A'', in_quantity = Num 2, in_price = Num 100\<rparr>,
                  \<lparr>in_description = ''B'', in_quantity = Num 1, in_price = Num 50\<rparr>],
      cd_notes = None, cd_taxRate = Num 10\<rparr>"

definition ex_invoice :: Invoice where
  "ex_invoice =
     \<lparr>inv_id = ''id-1'', inv_number = ''INV00007'', inv_date = DateOf ''2024-01-01'',
      inv_dueDate = DateOf ''2024-02-01'', inv_status = UNPAID, inv_subtotal = Num 250,
      inv_tax = Num 25, inv_total = Num 275, inv_notes = None, inv_paymentProof = None,
      inv_paidAt = None, inv_userId = ''alice'', inv_customerId = ''c1'',
      inv_items =
        [\<lparr>item_description = ''A'', item_quantity = 2, item_price = Num 100,
           item_amount = Num 200\<rparr>,
         \<lparr>item_description = ''B'', item_quantity = 1, item_price = Num 50,
           item_amount = Num 50\<rparr>]\<rparr>"

definition ex_db_blank :: db where
  "ex_db_blank =
     \<lparr>invoices = [],
      settings = [\<lparr>set_userId = ''alice'', set_invoicePrefix = Some [],
                   set_nextInvoiceNumber = 7\<rparr>]\<rparr>"

text \<open>An environment in which the counter update is rejected, and one with another fresh id.\<close>

definition ex_env_fail :: env where
  "ex_env_fail = ex_env\<lparr>throws := (\<lambda>c. c = SettingsUpdate)\<rparr>"

definition ex_env2 :: env where
  "ex_env2 = ex_env\<lparr>uuid := ''id-2''\<rparr>"

text \<open>Create, delete, create again: once with every call succeeding, once with the first
  counter update rejected.\<close>

definition ex_run :: "request list" where
  "ex_run = [Create ex_env ''alice'' ex_body, Delete ex_env ''alice'' ''id-1'',
             Create ex_env2 ''alice'' ex_body]"

definition ex_run_fail :: "request list" where
  "ex_run_fail = [Create ex_env_fail ''alice'' ex_body, Delete ex_env ''alice'' ''id-1'',
                  Create ex_env2 ''alice'' ex_body]"

text \<open>A database holding the example invoice of tenant \<open>alice\<close> in a given status and with
  given notes.\<close>

definition ex_stored :: "InvoiceStatus \<Rightarrow> string option \<Rightarrow> datetime option \<Rightarrow> Invoice" where
  "ex_stored st n t = ex_invoice\<lparr>inv_status := st, inv_notes := n, inv_paidAt := t\<rparr>"

definition ex_db_with :: "Invoice \<Rightarrow> db" where
  "ex_db_with r = \<lparr>invoices = [r], settings = ex_settings 8\<rparr>"

text \<open>Update bodies: a status change alone, and parsed data with every key absent.\<close>

definition status_body :: "string \<Rightarrow> json" where
  "status_body t = JObj [(''status'', JStr t)]"

definition no_update :: update_data where
  "no_update =
     \<lparr>ud_status = None, ud_paymentProof = None, ud_paymentNote = None, ud_dueDate = None,
      ud_notes = None, ud_paidAt = None\<rparr>"

text \<open>Update bodies that carry notes, a payment note, or an explicit null payment note.\<close>

definition notes_body :: "string \<Rightarrow> json" where
  "notes_body n = JObj [(''notes'', JStr n)]"

definition paymentNote_body :: "json \<Rightarrow> json" where
  "paymentNote_body v = JObj [(''notes'', JStr ''x''), (''paymentNote'', v)]"

text \<open>A create body with arbitrary strings and number literals in the schema's shape, and
  the data it parses to.\<close>

definition create_json :: "string \<Rightarrow> string \<Rightarrow> string \<Rightarrow> (string \<times> rat \<times> rat) list \<Rightarrow> rat \<Rightarrow> json" where
  "create_json c dt due its t =
     JObj [(''customerId'', JStr c), (''date'', JStr dt), (''dueDate'', JStr due),
           (''items'', JArr (map (\<lambda>(ds, q, p). item_json ds q p) its)), (''taxRate'', JNum t)]"






definition ex_body_half :: json where
  "ex_body_half = create_json ''c1'' ''2024-01-01'' ''2024-02-01'' [(''H'', 3 / 2, 10)] 0"

definition ex_invoice_half :: Invoice where
  "ex_invoice_half =
     ex_invoice\<lparr>inv_subtotal := Num 15, inv_tax := Num 0, inv_total := Num 15,
       inv_items := [\<lparr>item_description = ''H'', item_quantity = 1, item_price = Num 10,
                      item_amount = Num 15\<rparr>]\<rparr>"

definition ex_body_tenths :: json where
  "ex_body_tenths =
     create_json ''c1'' ''2024-01-01'' ''2024-02-01'' [(''P'', 1, 1 / 10), (''Q'', 1, 2 / 10)] 0"

definition ex_invoice_tenths :: Invoice where
  "ex_invoice_tenths =
     ex_invoice\<lparr>inv_subtotal := Num (1351079888211149 / 4503599627370496), inv_tax := Num 0,
       inv_total := Num (1351079888211149 / 4503599627370496),
       inv_items :=
         [\<lparr>item_description = ''P'', item_quantity = 1,
            item_price = Num (3602879701896397 / 36028797018963968),
            item_amount = Num (3602879701896397 / 36028797018963968)\<rparr>,
          \<lparr>item_description = ''Q'', item_quantity = 1,
            item_price = Num (3602879701896397 / 18014398509481984),
            item_amount = Num (3602879701896397 / 18014398509481984)\<rparr>]\<rparr>"

section \<open>Facts about numbers\<close>

lemma round_even_of_int: "round_even (of_int z) = z"
  by (simp add: round_even_def)

lemma up_value: "up a k = (b, j) \<Longrightarrow> k \<le> j \<and> b = a * 2 ^ (j - k)"
proof (induction a k rule: up.induct)
  case (1 a k)
  show ?case
  proof (cases "a < 2 ^ 52 \<and> k < 1074")
    case True
    with "1.prems" have "up (2 * a) (Suc k) = (b, j)"
      by (subst (asm) up.simps) simp
    with "1.IH" True have "Suc k \<le> j" and "b = 2 * a * 2 ^ (j - Suc k)"
      by simp_all
    moreover from \<open>Suc k \<le> j\<close> have "(2::rat) ^ (j - k) = 2 * 2 ^ (j - Suc k)"
      by (simp add: Suc_diff_Suc flip: power_Suc)
    ultimately show ?thesis by simp
  next
    case False
    with "1.prems" show ?thesis
      by (subst (asm) up.simps) auto
  qed
qed

lemma nearest_int:
  assumes "0 < n" and "of_int n < (2::rat) ^ 53"
  shows "nearest (of_int n) = of_int n"
proof -
  obtain b j where u: "up (of_int n) 0 = (b, j)"
    by (cases "up (rat_of_int n) 0")
  from up_value [OF u] have b: "b = of_int (n * 2 ^ j)"
    by simp
  have "round_even b = n * 2 ^ j"
    unfolding b by (rule round_even_of_int)
  with assms(2) u show ?thesis
    by (simp add: nearest_def)
qed

lemma to_double_of_int:
  assumes "\<bar>of_int n\<bar> < (2::rat) ^ 53"
  shows "to_double (of_int n) = Num (of_int n)"
proof (cases "n = 0")
  case True
  then show ?thesis by (simp add: to_double_def)
next
  case False
  then have p: "0 < \<bar>n\<bar>" by simp
  from assms have "rat_of_int \<bar>n\<bar> < 2 ^ 53" by simp
  from nearest_int [OF p this] have n: "nearest \<bar>rat_of_int n\<bar> = \<bar>rat_of_int n\<bar>"
    by simp
  have "\<bar>rat_of_int n\<bar> < 2 ^ 1024"
    using assms by (rule less_trans) simp
  with False n show ?thesis
    by (simp add: to_double_def mult_sgn_abs)
qed

text \<open>An integer below \<open>2 ^ 53\<close> in magnitude is a double: rounding leaves it as it is.\<close>

lemma to_double_Ints:
  assumes "r \<in> \<int>" and "\<bar>r\<bar> < 2 ^ 53"
  shows "to_double r = Num r"
  using assms to_double_of_int by (auto elim!: Ints_cases)

lemma integer_number_Ints: "integer_number n \<longleftrightarrow> (\<exists>r \<in> \<int>. n = Num r)"
proof (cases n)
  case (Num r)
  have "of_int \<lfloor>r\<rfloor> = r \<longleftrightarrow> r \<in> \<int>"
    by (metis Ints_of_int floor_of_int Ints_cases)
  with Num show ?thesis by simp
next
  case NonFinite
  then show ?thesis by simp
qed

lemma Int_value_integer: "integer_number n \<Longrightarrow> of_int (Int_value n) = value_of n"
  by (cases n) (auto simp: ceiling_altdef)

lemma mul_exact:
  assumes "integer_number a" and "integer_number b"
    and "\<bar>value_of a * value_of b\<bar> < 2 ^ 53"
  shows "mul a b = Num (value_of a * value_of b)"
proof -
  from assms(1,2) obtain x y where a: "a = Num x" "x \<in> \<int>" and b: "b = Num y" "y \<in> \<int>"
    by (auto simp: integer_number_Ints)
  then have "x * y \<in> \<int>" by simp
  with assms(3) a b show ?thesis
    by (simp add: to_double_Ints)
qed

text \<open>The running sum of the \<open>reduce\<close> is exact as long as it stays below \<open>2 ^ 53\<close>.\<close>

lemma foldl_exact:
  assumes "\<forall>i \<in> set its. integer_number (in_quantity i) \<and> integer_number (in_price i)"
    and "s \<in> \<int>"
    and "\<bar>s\<bar> + (\<Sum>i\<leftarrow>its. \<bar>exact_amount i\<bar>) < 2 ^ 53"
  shows "foldl (\<lambda>sum item. add sum (mul (in_quantity item) (in_price item))) (Num s) its
           = Num (s + (\<Sum>i\<leftarrow>its. exact_amount i))"
  using assms
proof (induction its arbitrary: s)
  case Nil
  then show ?case by simp
next
  case (Cons i its)
  have nn: "0 \<le> (\<Sum>i\<leftarrow>its. \<bar>exact_amount i\<bar>)"
    by (rule sum_list_nonneg) auto
  from Cons.prems(3) nn have bound: "\<bar>exact_amount i\<bar> < 2 ^ 53"
    by simp
  from Cons.prems(1) have int: "integer_number (in_quantity i)" "integer_number (in_price i)"
    by simp_all
  from mul_exact [OF int] bound
  have m: "mul (in_quantity i) (in_price i) = Num (exact_amount i)"
    by (simp add: exact_amount_def)
  from int have ea: "exact_amount i \<in> \<int>"
    by (auto simp: integer_number_Ints exact_amount_def)
  with Cons.prems(2) have s': "s + exact_amount i \<in> \<int>"
    by simp
  have "\<bar>s + exact_amount i\<bar> \<le> \<bar>s\<bar> + \<bar>exact_amount i\<bar>"
    by (rule abs_triangle_ineq)
  with Cons.prems(3) nn have b1: "\<bar>s + exact_amount i\<bar> < 2 ^ 53"
    and b2: "\<bar>s + exact_amount i\<bar> + (\<Sum>i\<leftarrow>its. \<bar>exact_amount i\<bar>) < 2 ^ 53"
    by simp_all
  from s' b1 have a: "add (Num s) (Num (exact_amount i)) = Num (s + exact_amount i)"
    by (simp add: to_double_Ints)
  from Cons.prems(1) have rest: "\<forall>i \<in> set its. integer_number (in_quantity i) \<and> integer_number (in_price i)"
    by simp
  from Cons.IH [OF rest s' b2] m a show ?case
    by (simp add: add.assoc)
qed

lemma subtotal_of_exact:
  assumes "\<forall>i \<in> set its. integer_number (in_quantity i) \<and> integer_number (in_price i)"
    and "(\<Sum>i\<leftarrow>its. \<bar>exact_amount i\<bar>) < 2 ^ 53"
  shows "subtotal_of its = Num (\<Sum>i\<leftarrow>its. exact_amount i)"
  using foldl_exact [OF assms(1), of 0] assms(2) by (simp add: subtotal_of_def)

lemma to_double_numeral:
  "(numeral k :: rat) < 2 ^ 53 \<Longrightarrow> to_double (numeral k) = Num (numeral k)"
  "(numeral k :: rat) < 2 ^ 53 \<Longrightarrow> to_double (- numeral k) = Num (- numeral k)"
  "to_double 0 = Num 0" "to_double 1 = Num 1" "to_double (- 1) = Num (- 1)"
  by (simp_all add: to_double_Ints)

lemma floor_rat_numeral: "\<lfloor>(numeral a :: rat) / numeral b\<rfloor> = numeral a div numeral b"
  using floor_divide_of_int_eq [of "numeral a" "numeral b", where ?'a = rat] by simp

lemmas double_eval = to_double_def nearest_def up.simps down.simps round_even_def Let_def
  floor_rat_numeral

section \<open>Facts about the create handler\<close>

lemma find_userId: "find (\<lambda>s. set_userId s = u) xs = Some s \<Longrightarrow> s \<in> set xs \<and> set_userId s = u"
  by (induction xs) (auto split: if_splits)

lemma create_invoice_cases:
  assumes "create_invoice e u body d = (r, d')"
  shows "(d' = d \<and> (\<forall>x. r \<noteq> Success x)) \<or>
         (\<exists>data s. createInvoiceSchema body = Some data \<and>
            find (\<lambda>s. set_userId s = u) (settings d) = Some s \<and>
            invoices d' = invoices d @ [created_row e u data s] \<and>
            (\<forall>i \<in> set (cd_items data). in_quantity i \<noteq> NonFinite) \<and>
            (\<forall>x \<in> set (invoices d). inv_id x \<noteq> uuid e) \<and>
            (\<forall>x \<in> set (invoices d). \<not> (inv_userId x = u \<and> inv_number x = invoiceNumber s)) \<and>
            ((r = Success (created_row e u data s) \<and> settings d' = map (increment u) (settings d)) \<or>
             (r = Next PrismaError \<and> settings d' = settings d \<and> throws e SettingsUpdate)))"
proof (cases "createInvoiceSchema body")
  case None
  with assms show ?thesis by (auto simp: create_invoice_def)
next
  case (Some data)
  note parsed = this
  show ?thesis
  proof (cases "prisma_settings_findUnique e u d")
    case (Inl err)
    with assms parsed show ?thesis by (auto simp: create_invoice_def Let_def)
  next
    case (Inr found)
    show ?thesis
    proof (cases found)
      case None
      with assms parsed Inr show ?thesis by (auto simp: create_invoice_def Let_def)
    next
      case (Some s)
      with Inr have f: "find (\<lambda>s. set_userId s = u) (settings d) = Some s"
        by (simp add: prisma_settings_findUnique_def split: if_splits)
      then have ex: "\<exists>s \<in> set (settings d). set_userId s = u"
        using find_userId by blast
      let ?c = "\<lparr>new_number = invoiceNumber s, new_date = DateOf (cd_date data),
        new_dueDate = DateOf (cd_dueDate data), new_subtotal = subtotal_of (cd_items data),
        new_tax = div100 (mul (subtotal_of (cd_items data)) (cd_taxRate data)),
        new_total =
          add (subtotal_of (cd_items data))
            (div100 (mul (subtotal_of (cd_items data)) (cd_taxRate data))),
        new_notes = cd_notes data, new_userId = u,
        new_customerId = cd_customerId data, new_items = map item_of (cd_items data)\<rparr>"
      have step: "(r, d') = (case prisma_invoice_create e ?c d of
                     Inl err \<Rightarrow> (Next err, d)
                   | Inr (invoice, d1) \<Rightarrow>
                       (case prisma_settings_update e u d1 of
                          Inl err \<Rightarrow> (Next err, d1)
                        | Inr d2 \<Rightarrow> (Success invoice, d2)))"
        using assms parsed Inr Some by (simp add: create_invoice_def Let_def)
      show ?thesis
      proof (cases "prisma_invoice_create e ?c d")
        case (Inl err)
        with step show ?thesis by simp
      next
        case (Inr p)
        then have p: "p = (created_row e u data s, d\<lparr>invoices := invoices d @ [created_row e u data s]\<rparr>)"
          by (auto simp: prisma_invoice_create_def created_row_def Let_def split: if_splits)
        have q: "\<forall>i \<in> set (cd_items data). in_quantity i \<noteq> NonFinite"
          using Inr by (auto simp: prisma_invoice_create_def item_of_def split: if_splits)
        have k: "\<forall>x \<in> set (invoices d). inv_id x \<noteq> uuid e"
          using Inr by (auto simp: prisma_invoice_create_def split: if_splits)
        have n: "\<forall>x \<in> set (invoices d). \<not> (inv_userId x = u \<and> inv_number x = invoiceNumber s)"
          using Inr by (auto simp: prisma_invoice_create_def split: if_splits)
        show ?thesis
        proof (cases "throws e SettingsUpdate")
          case True
          let ?d1 = "d\<lparr>invoices := invoices d @ [created_row e u data s]\<rparr>"
          from True have "prisma_settings_update e u ?d1 = Inl PrismaError"
            unfolding prisma_settings_update_def by simp
          with step Inr p have "r = Next PrismaError" and "d' = ?d1"
            by simp_all
          with True parsed f q k n show ?thesis
            by simp
        next
          case False
          let ?d1 = "d\<lparr>invoices := invoices d @ [created_row e u data s]\<rparr>"
          from False ex have "prisma_settings_update e u ?d1 = Inr (?d1\<lparr>settings := map (increment u) (settings d)\<rparr>)"
            unfolding prisma_settings_update_def by simp
          with step Inr p have "r = Success (created_row e u data s)"
            and "d' = ?d1\<lparr>settings := map (increment u) (settings d)\<rparr>"
            by simp_all
          with parsed f q k n show ?thesis
            by simp
        qed
      qed
    qed
  qed
qed

lemma created_row_number [simp]: "inv_number (created_row e u data s) = invoiceNumber s"
  by (simp add: created_row_def invoice_row_def)

lemma created_row_userId [simp]: "inv_userId (created_row e u data s) = u"
  by (simp add: created_row_def invoice_row_def)

lemma increment_userId [simp]: "set_userId (increment v s) = set_userId s"
  by (simp add: increment_def)

lemma find_increment_same:
  "find (\<lambda>s. set_userId s = u) (map (increment u) xs)
     = map_option (increment u) (find (\<lambda>s. set_userId s = u) xs)"
  by (induction xs) simp_all

lemma find_increment_other:
  "v \<noteq> u \<Longrightarrow> find (\<lambda>s. set_userId s = u) (map (increment v) xs)
     = find (\<lambda>s. set_userId s = u) xs"
  by (induction xs) (simp_all add: increment_def)


lemma created_row_items:
  "inv_items (created_row e u data s) = map (\<lambda>i. item_row (item_of i)) (cd_items data)"
  by (simp add: created_row_def invoice_row_def)

lemma sum_exact_Ints:
  "\<forall>i \<in> set its. integer_number (in_quantity i) \<and> integer_number (in_price i) \<Longrightarrow>
     (\<Sum>i\<leftarrow>its. exact_amount i) \<in> \<int>"
  by (induction its) (auto simp: integer_number_Ints exact_amount_def)

lemma amount_bound:
  assumes "i \<in> set its" and "(\<Sum>i\<leftarrow>its. \<bar>exact_amount i\<bar>) < b"
  shows "\<bar>exact_amount i\<bar> < b"
proof -
  have "\<bar>exact_amount i\<bar> \<le> (\<Sum>i\<leftarrow>its. \<bar>exact_amount i\<bar>)"
    using assms(1) by (intro member_le_sum_list) auto
  with assms(2) show ?thesis by simp
qed

lemma tax_exact:
  assumes "S \<in> \<int>" and "S * t \<in> \<int>" and "\<bar>S * t\<bar> < 2 ^ 53" and "S * t / 100 \<in> \<int>"
    and "\<bar>S + S * t / 100\<bar> < 2 ^ 53"
  shows "div100 (mul (Num S) (Num t)) = Num (S * t / 100)"
    and "add (Num S) (Num (S * t / 100)) = Num (S + S * t / 100)"
proof -
  have "\<bar>S * t / 100\<bar> \<le> \<bar>S * t\<bar>"
    by (simp add: abs_divide)
  with assms(3) have "\<bar>S * t / 100\<bar> < 2 ^ 53" by simp
  with assms(2,3,4) show "div100 (mul (Num S) (Num t)) = Num (S * t / 100)"
    by (simp add: to_double_Ints)
  from assms(1,4) have "S + S * t / 100 \<in> \<int>" by simp
  with assms(5) show "add (Num S) (Num (S * t / 100)) = Num (S + S * t / 100)"
    by (simp add: to_double_Ints)
qed





section \<open>Facts about invoice numbers\<close>

lemma digit_char_value: "k < 10 \<Longrightarrow> (of_char (''0123456789'' ! k) :: nat) - 48 = k"
proof -
  assume "k < 10"
  then consider "k = 0" | "k = 1" | "k = 2" | "k = 3" | "k = 4" | "k = 5" | "k = 6" | "k = 7"
    | "k = 8" | "k = 9"
    by (auto simp: less_Suc_eq numeral_eq_Suc)
  then show ?thesis
    by cases simp_all
qed

lemma decimal_value_snoc:
  "decimal_value (s @ [c]) = 10 * decimal_value s + (of_char c - 48)"
  by (simp add: decimal_value_def)

lemma decimal_value_digits: "decimal_value (digits n) = n"
proof (induction n rule: digits.induct)
  case (1 n)
  show ?case
  proof (cases "n < 10")
    case True
    then show ?thesis
      by (subst digits.simps) (simp add: decimal_value_def digit_char_value)
  next
    case False
    then have "decimal_value (digits (n div 10)) = n div 10"
      using "1.IH" by simp
    with False show ?thesis
      by (subst digits.simps) (simp add: decimal_value_snoc digit_char_value)
  qed
qed

lemma decimal_value_zeros: "decimal_value (replicate k (CHR ''0'') @ s) = decimal_value s"
proof -
  have "foldl (\<lambda>a c. 10 * a + (of_char c - 48)) (0::nat) (replicate k (CHR ''0'')) = 0"
    by (induction k) simp_all
  then show ?thesis
    by (simp add: decimal_value_def)
qed

lemma decimal_value_padStart:
  "0 \<le> n \<Longrightarrow> decimal_value (padStart w (CHR ''0'') (String n)) = nat n"
  by (simp add: padStart_def String_def decimal_value_zeros decimal_value_digits)

lemma length_padStart: "length (padStart w c s) = max w (length s)"
  by (simp add: padStart_def)

lemma padStart_inj:
  assumes "0 \<le> m" "0 \<le> n" "padStart w (CHR ''0'') (String m) = padStart w (CHR ''0'') (String n)"
  shows "m = n"
proof -
  from assms(3) have "decimal_value (padStart w (CHR ''0'') (String m))
      = decimal_value (padStart w (CHR ''0'') (String n))" by simp
  with assms(1,2) show ?thesis by (simp add: decimal_value_padStart)
qed

lemma digits_digit: "c \<in> set (digits n) \<Longrightarrow> c \<in> set ''0123456789''"
proof (induction n rule: digits.induct)
  case (1 n)
  have nth: "\<And>k. k < 10 \<Longrightarrow> ''0123456789'' ! k \<in> set ''0123456789''"
    by (rule nth_mem) simp
  show ?case
  proof (cases "n < 10")
    case True
    with "1.prems" nth [of n] show ?thesis
      by (subst (asm) digits.simps) simp
  next
    case False
    from "1.prems" False have "c \<in> set (digits (n div 10)) \<or> c = ''0123456789'' ! (n mod 10)"
      by (subst (asm) digits.simps) auto
    with "1.IH" False nth [of "n mod 10"] show ?thesis
      by auto
  qed
qed

lemma length_digits: "0 < k \<Longrightarrow> n < 10 ^ k \<Longrightarrow> length (digits n) \<le> k"
proof (induction n arbitrary: k rule: digits.induct)
  case (1 n)
  show ?case
  proof (cases "n < 10")
    case True
    with "1.prems" show ?thesis
      by (subst digits.simps) simp
  next
    case False
    with "1.prems" have k: "1 < k"
      by (cases "k = 1") auto
    then obtain j where j: "k = Suc j" "0 < j"
      by (cases k) auto
    with "1.prems" have "n div 10 < 10 ^ j"
      by (simp add: less_mult_imp_div_less mult.commute)
    with "1.IH" [OF False j(2)] have "length (digits (n div 10)) \<le> j"
      by simp
    with False j show ?thesis
      by (subst digits.simps) simp
  qed
qed

lemma padStart_digits:
  "c \<in> set (padStart w (CHR ''0'') (digits n)) \<Longrightarrow> c \<in> set ''0123456789''"
  using digits_digit [of c n] by (auto simp: padStart_def)

lemma numbers_from_Suc:
  "set_userId s = u \<Longrightarrow> numbers_from s (Suc m) = invoiceNumber s # numbers_from (increment u s) m"
  by (simp add: numbers_from_def map_upt_Suc increment_def add.commute add.left_commute
      del: upt_Suc)

lemma numbers_from_nth:
  "k < m \<Longrightarrow> numbers_from s m ! k
     = invoicePrefix s @ padStart 5 (CHR ''0'') (String (set_nextInvoiceNumber s + int k))"
  by (simp add: numbers_from_def invoiceNumber_def invoicePrefix_def)

lemma numbers_from_values:
  assumes "0 \<le> set_nextInvoiceNumber s"
  shows "map (\<lambda>z. decimal_value (drop (length (invoicePrefix s)) z)) (numbers_from s m)
           = [nat (set_nextInvoiceNumber s) ..< nat (set_nextInvoiceNumber s) + m]"
proof (rule nth_equalityI)
  show "length (map (\<lambda>z. decimal_value (drop (length (invoicePrefix s)) z)) (numbers_from s m))
      = length [nat (set_nextInvoiceNumber s) ..< nat (set_nextInvoiceNumber s) + m]"
    by (simp add: numbers_from_def)
next
  fix k
  assume "k < length (map (\<lambda>z. decimal_value (drop (length (invoicePrefix s)) z)) (numbers_from s m))"
  then have k: "k < m" by (simp add: numbers_from_def)
  with assms show "map (\<lambda>z. decimal_value (drop (length (invoicePrefix s)) z)) (numbers_from s m) ! k
      = [nat (set_nextInvoiceNumber s) ..< nat (set_nextInvoiceNumber s) + m] ! k"
    by (simp add: numbers_from_def invoiceNumber_def invoicePrefix_def decimal_value_padStart
        nat_add_distrib)
qed

lemma distinct_numbers_from:
  assumes "0 \<le> set_nextInvoiceNumber s"
  shows "distinct (numbers_from s m)"
proof -
  have "distinct (map (\<lambda>z. decimal_value (drop (length (invoicePrefix s)) z)) (numbers_from s m))"
    by (simp add: numbers_from_values [OF assms])
  then show ?thesis
    by (simp add: distinct_map)
qed

section \<open>Facts about the update handler\<close>

text \<open>
  The user model of the schema has no field \<open>name\<close>, \<open>address\<close> or \<open>phone\<close>: the lookup of
  the update handler is rejected for every id and in every database.
\<close>

lemma lookup_rejects:
  "prisma_invoice_findUnique e [''name'', ''email'', ''businessName'', ''address'', ''phone''] i d
     = Inl PrismaError"
  by (simp add: prisma_invoice_findUnique_def User_fields_def)

text \<open>So the update handler has two answers, and never writes.\<close>

lemma update_invoice_answers:
  "update_invoice e c i body d =
     (case updateInvoiceSchema e body of
        None \<Rightarrow> (Status 400 ''Data tidak valid'', d)
      | Some u \<Rightarrow> (Status 500 ''Gagal memperbarui faktur'', d))"
  by (simp add: update_invoice_def lookup_rejects split: option.splits)

lemma update_invoice_db: "update_invoice e c i body d = (x, d') \<Longrightarrow> d' = d"
  by (auto simp: update_invoice_answers split: option.splits)

lemma update_invoice_settings:
  "update_invoice e c i body d = (x, d') \<Longrightarrow> settings d' = settings d"
  by (drule update_invoice_db) simp

lemma update_invoice_keys:
  "update_invoice e c i body d = (x, d') \<Longrightarrow>
     map invoice_key (invoices d') = map invoice_key (invoices d)"
  by (drule update_invoice_db) simp

lemma delete_invoice_settings:
  "delete_invoice e u i d = (x, d') \<Longrightarrow> settings d' = settings d"
  by (auto simp: delete_invoice_def split: if_splits)

section \<open>Facts about runs\<close>

lemma handle_settings:
  assumes "handle r d = (x, d')" and "settings_of d u = Some s"
  shows "(created u (r, x) = [] \<and> settings_of d' u = Some s)
       \<or> (created u (r, x) = [invoiceNumber s] \<and> settings_of d' u = Some (increment u s))"
proof (cases r)
  case (Create e v body)
  with assms(1) have c: "create_invoice e v body d = (x, d')" by simp
  from create_invoice_cases [OF c] show ?thesis
  proof (elim disjE conjE exE)
    assume "d' = d" "\<forall>y. x \<noteq> Success y"
    with assms(2) Create show ?thesis
      by (cases x) simp_all
  next
    fix data s'
    assume f: "find (\<lambda>s. set_userId s = v) (settings d) = Some s'"
      and x: "x = Success (created_row e v data s')"
      and s: "settings d' = map (increment v) (settings d)"
    show ?thesis
    proof (cases "v = u")
      case True
      with f assms(2) have "s' = s" by (simp add: settings_of_def)
      with True x s assms(2) Create show ?thesis
        by (simp add: settings_of_def find_increment_same)
    next
      case False
      with x s assms(2) Create show ?thesis
        by (simp add: settings_of_def find_increment_other)
    qed
  next
    fix data s'
    assume "x = Next PrismaError" "settings d' = settings d"
    with assms(2) Create show ?thesis
      by (simp add: settings_of_def)
  qed
next
  case (Update e c i body)
  with assms update_invoice_settings [of e c i body d x d'] show ?thesis
    by (simp add: settings_of_def)
next
  case (Delete e v i)
  with assms delete_invoice_settings [of e v i d x d'] show ?thesis
    by (simp add: settings_of_def)
qed

lemma run_created:
  assumes "run reqs d = (resps, d')" and "settings_of d u = Some s"
  shows "created_numbers u reqs resps = numbers_from s (length (created_numbers u reqs resps))
       \<and> settings_of d' u = Some (s\<lparr>set_nextInvoiceNumber :=
            set_nextInvoiceNumber s + int (length (created_numbers u reqs resps))\<rparr>)"
  using assms
proof (induction reqs arbitrary: d resps s d')
  case Nil
  then show ?case
    by (simp add: created_numbers_def numbers_from_def)
next
  case (Cons r rs)
  obtain x d1 where h: "handle r d = (x, d1)" by (cases "handle r d")
  obtain xs d2 where t: "run rs d1 = (xs, d2)" by (cases "run rs d1")
  from Cons.prems(1) h t have resps: "resps = x # xs" and d': "d' = d2"
    by simp_all
  have app: "created_numbers u (r # rs) resps = created u (r, x) @ created_numbers u rs xs"
    by (simp add: created_numbers_def resps)
  from Cons.prems(2) have uid: "set_userId s = u"
    using find_userId by (auto simp: settings_of_def)
  from handle_settings [OF h Cons.prems(2)] show ?case
  proof (elim disjE conjE)
    assume c: "created u (r, x) = []" and s1: "settings_of d1 u = Some s"
    from Cons.IH [OF t s1] c app d' show ?thesis
      by simp
  next
    assume c: "created u (r, x) = [invoiceNumber s]"
      and s1: "settings_of d1 u = Some (increment u s)"
    from Cons.IH [OF t s1] c app d' uid show ?thesis
      by (simp add: numbers_from_Suc) (simp add: increment_def)
  qed
qed

lemma handle_distinct:
  assumes "handle r d = (x, d')" and "distinct (map invoice_key (invoices d))"
  shows "distinct (map invoice_key (invoices d'))"
proof (cases r)
  case (Create e v body)
  with assms(1) have c: "create_invoice e v body d = (x, d')" by simp
  from create_invoice_cases [OF c]
  have "d' = d \<or> (\<exists>data s. invoices d' = invoices d @ [created_row e v data s] \<and>
      (\<forall>y \<in> set (invoices d). \<not> (inv_userId y = v \<and> inv_number y = invoiceNumber s)))"
    by blast
  then show ?thesis
  proof (elim disjE conjE exE)
    assume "d' = d"
    with assms(2) show ?thesis by simp
  next
    fix data s
    assume i: "invoices d' = invoices d @ [created_row e v data s]"
      and n: "\<forall>y \<in> set (invoices d). \<not> (inv_userId y = v \<and> inv_number y = invoiceNumber s)"
    from n have "invoice_key (created_row e v data s) \<notin> invoice_key ` set (invoices d)"
      by (auto simp: invoice_key_def)
    with assms(2) i show ?thesis by simp
  qed
next
  case (Update e c i body)
  with assms update_invoice_keys [of e c i body d x d'] show ?thesis
    by simp
next
  case (Delete e v i)
  with assms show ?thesis
    by (auto simp: delete_invoice_def distinct_map_filter split: if_splits)
qed

lemma run_distinct:
  "run reqs d = (resps, d') \<Longrightarrow> distinct (map invoice_key (invoices d)) \<Longrightarrow>
     distinct (map invoice_key (invoices d'))"
proof (induction reqs arbitrary: d resps d')
  case Nil
  then show ?case by simp
next
  case (Cons r rs)
  obtain x d1 where h: "handle r d = (x, d1)" by (cases "handle r d")
  obtain xs d2 where t: "run rs d1 = (xs, d2)" by (cases "run rs d1")
  from Cons.prems(1) h t have "d' = d2" by simp
  with Cons.IH [OF t handle_distinct [OF h Cons.prems(2)]] show ?case by simp
qed

section \<open>The examples, evaluated\<close>

lemma replicate_numeral: "replicate (numeral k) x = x # replicate (pred_numeral k) x"
  by (simp add: numeral_eq_Suc)

lemmas eval_defs = replicate_numeral create_invoice_def Let_def prisma_settings_findUnique_def
  prisma_invoice_create_def prisma_settings_update_def subtotal_of_def item_of_def
  invoiceNumber_def invoicePrefix_def padStart_def String_def digits.simps invoice_row_def
  item_row_def increment_def create_body_def create_json_def item_json_def to_double_numeral

lemma ex_parse: "createInvoiceSchema ex_body = Some ex_data"
  by (simp add: ex_body_def ex_data_def create_body_def item_json_def to_double_numeral)

lemma ex_create:
  "create_invoice ex_env ''alice'' ex_body ex_db =
     (Success ex_invoice, \<lparr>invoices = [ex_invoice], settings = ex_settings 8\<rparr>)"
  by (simp add: eval_defs ex_env_def ex_body_def ex_db_def ex_invoice_def ex_settings_def)

lemma ex_settings_of: "settings_of ex_db ''alice'' = Some (hd (ex_settings 7))"
  by (simp add: settings_of_def ex_db_def ex_settings_def)

lemma ex_create_fail:
  "create_invoice ex_env_fail ''alice'' ex_body ex_db =
     (Next PrismaError, \<lparr>invoices = [ex_invoice], settings = ex_settings 7\<rparr>)"
  by (simp add: eval_defs ex_env_fail_def ex_env_def ex_body_def ex_db_def ex_invoice_def
      ex_settings_def)

lemma ex_delete:
  "delete_invoice ex_env ''alice'' ''id-1'' \<lparr>invoices = [ex_invoice], settings = ss\<rparr>
     = (SuccessNull, \<lparr>invoices = [], settings = ss\<rparr>)"
  by (simp add: delete_invoice_def ex_env_def ex_invoice_def)

lemma ex_create_again:
  "create_invoice ex_env2 ''alice'' ex_body \<lparr>invoices = [], settings = ex_settings 8\<rparr> =
     (Success (ex_invoice\<lparr>inv_id := ''id-2'', inv_number := ''INV00008''\<rparr>),
      \<lparr>invoices = [ex_invoice\<lparr>inv_id := ''id-2'', inv_number := ''INV00008''\<rparr>],
       settings = ex_settings 9\<rparr>)"
  by (simp add: eval_defs ex_env2_def ex_env_def ex_body_def ex_invoice_def ex_settings_def)

lemma ex_create_reuse:
  "create_invoice ex_env2 ''alice'' ex_body \<lparr>invoices = [], settings = ex_settings 7\<rparr> =
     (Success (ex_invoice\<lparr>inv_id := ''id-2''\<rparr>),
      \<lparr>invoices = [ex_invoice\<lparr>inv_id := ''id-2''\<rparr>], settings = ex_settings 8\<rparr>)"
  by (simp add: eval_defs ex_env2_def ex_env_def ex_body_def ex_invoice_def ex_settings_def)

lemma ex_run_result:
  "run ex_run ex_db =
     ([Success ex_invoice, SuccessNull,
       Success (ex_invoice\<lparr>inv_id := ''id-2'', inv_number := ''INV00008''\<rparr>)],
      \<lparr>invoices = [ex_invoice\<lparr>inv_id := ''id-2'', inv_number := ''INV00008''\<rparr>],
       settings = ex_settings 9\<rparr>)"
  by (simp add: ex_run_def ex_create ex_delete ex_create_again)

lemma ex_doubles:
  "to_double (3 / 2) = Num (3 / 2)"
  "to_double (1 / 10) = Num (3602879701896397 / 36028797018963968)"
  "to_double (2 / 10) = Num (3602879701896397 / 18014398509481984)"
  "to_double (1 / 5) = Num (3602879701896397 / 18014398509481984)"
  "to_double (3602879701896397 / 36028797018963968) = Num (3602879701896397 / 36028797018963968)"
  "to_double (3602879701896397 / 18014398509481984) = Num (3602879701896397 / 18014398509481984)"
  "to_double (3602879701896397 / 36028797018963968 + 3602879701896397 / 18014398509481984)
     = Num (1351079888211149 / 4503599627370496)"
  "to_double (10808639105689191 / 36028797018963968) = Num (1351079888211149 / 4503599627370496)"
  "to_double (1351079888211149 / 4503599627370496) = Num (1351079888211149 / 4503599627370496)"
  by (simp_all add: double_eval)

lemma ex_create_half:
  "create_invoice ex_env ''alice'' ex_body_half ex_db =
     (Success ex_invoice_half, \<lparr>invoices = [ex_invoice_half], settings = ex_settings 8\<rparr>)"
  by (simp add: eval_defs ex_doubles floor_rat_numeral ex_env_def ex_body_half_def ex_db_def
      ex_invoice_def ex_invoice_half_def ex_settings_def)

lemma ex_create_tenths:
  "create_invoice ex_env ''alice'' ex_body_tenths ex_db =
     (Success ex_invoice_tenths, \<lparr>invoices = [ex_invoice_tenths], settings = ex_settings 8\<rparr>)"
  by (simp add: eval_defs ex_doubles floor_rat_numeral ex_env_def ex_body_tenths_def ex_db_def
      ex_invoice_def ex_invoice_tenths_def ex_settings_def)



lemma ex_parse_status:
  "updateInvoiceSchema ex_env (status_body ''UNPAID'') = Some (no_update\<lparr>ud_status := Some UNPAID\<rparr>)"
  "updateInvoiceSchema ex_env (status_body ''PAID'') = Some (no_update\<lparr>ud_status := Some PAID\<rparr>)"
  "updateInvoiceSchema ex_env (status_body ''CANCELLED'')
     = Some (no_update\<lparr>ud_status := Some CANCELLED\<rparr>)"
  by (simp_all add: status_body_def no_update_def)

lemma ex_parse_notes:
  "updateInvoiceSchema ex_env (notes_body n) = Some (no_update\<lparr>ud_notes := Some n\<rparr>)"
  by (simp add: notes_body_def no_update_def)

lemma ex_parse_paymentNote:
  "updateInvoiceSchema ex_env (paymentNote_body JNull)
     = Some (no_update\<lparr>ud_notes := Some ''x'', ud_paymentNote := Some None\<rparr>)"
  "updateInvoiceSchema ex_env (paymentNote_body (JStr ''transfer''))
     = Some (no_update\<lparr>ud_notes := Some ''x'', ud_paymentNote := Some (Some ''transfer'')\<rparr>)"
  by (simp_all add: paymentNote_body_def no_update_def)

section \<open>Totals of a created invoice\<close>

text \<open>
  Claim C1, as the code has it. The amounts are JavaScript numbers and the columns are
  \<open>Float\<close> and \<open>Int\<close>. Every invoice a create call inserts carries, for each item, the
  double product of the request's quantity and price as amount, the quantity truncated toward
  zero and the price as given; its subtotal is the sum of the amounts added from 0 in the
  order of the items, tax is subtotal * taxRate / 100 and total is subtotal + tax, every
  operation rounded to a double. When all quantities and prices are integers and the
  absolute amounts sum to less than \<open>2 ^ 53\<close> nothing is rounded: each amount is the stored
  quantity times the price and the subtotal is the sum of quantity * price; when moreover
  subtotal * taxRate is an integer below \<open>2 ^ 53\<close> that 100 divides and subtotal + tax stays
  below \<open>2 ^ 53\<close>, tax and total are exact as well.
\<close>

theorem C1_create_totals:
  assumes "create_invoice e u body d = (r, d')"
    and "createInvoiceSchema body = Some data"
    and "x \<in> set (invoices d')" and "x \<notin> set (invoices d)"
  shows "map item_amount (inv_items x) = map (\<lambda>i. mul (in_quantity i) (in_price i)) (cd_items data)
       \<and> map item_quantity (inv_items x) = map (\<lambda>i. Int_value (in_quantity i)) (cd_items data)
       \<and> map item_price (inv_items x) = map in_price (cd_items data)
       \<and> inv_subtotal x =
           foldl (\<lambda>sum item. add sum (mul (in_quantity item) (in_price item))) (Num 0)
             (cd_items data)
       \<and> inv_tax x = div100 (mul (inv_subtotal x) (cd_taxRate data))
       \<and> inv_total x = add (inv_subtotal x) (inv_tax x)
       \<and> ((\<forall>i \<in> set (cd_items data). integer_number (in_quantity i) \<and> integer_number (in_price i))
            \<and> (\<Sum>i\<leftarrow>cd_items data. \<bar>exact_amount i\<bar>) < 2 ^ 53
          \<longrightarrow> (\<forall>it \<in> set (inv_items x).
                  item_amount it = Num (of_int (item_quantity it) * value_of (item_price it)))
              \<and> inv_subtotal x = Num (\<Sum>i\<leftarrow>cd_items data. exact_amount i)
              \<and> (\<forall>t. cd_taxRate data = Num t
                     \<and> (\<Sum>i\<leftarrow>cd_items data. exact_amount i) * t \<in> \<int>
                     \<and> \<bar>(\<Sum>i\<leftarrow>cd_items data. exact_amount i) * t\<bar> < 2 ^ 53
                     \<and> (\<Sum>i\<leftarrow>cd_items data. exact_amount i) * t / 100 \<in> \<int>
                     \<and> \<bar>(\<Sum>i\<leftarrow>cd_items data. exact_amount i)
                          + (\<Sum>i\<leftarrow>cd_items data. exact_amount i) * t / 100\<bar> < 2 ^ 53
                   \<longrightarrow> inv_tax x = Num ((\<Sum>i\<leftarrow>cd_items data. exact_amount i) * t / 100)
                       \<and> inv_total x =
                           Num ((\<Sum>i\<leftarrow>cd_items data. exact_amount i)
                                + (\<Sum>i\<leftarrow>cd_items data. exact_amount i) * t / 100)))"
proof -
  let ?its = "cd_items data"
  let ?S = "\<Sum>i\<leftarrow>?its. exact_amount i"
  from create_invoice_cases [OF assms(1)] assms(2,3,4)
  obtain s where x: "x = created_row e u data s"
    by auto
  have a: "map item_amount (inv_items x) = map (\<lambda>i. mul (in_quantity i) (in_price i)) ?its"
    by (simp add: x created_row_items item_row_def item_of_def comp_def)
  have b: "map item_quantity (inv_items x) = map (\<lambda>i. Int_value (in_quantity i)) ?its"
    by (simp add: x created_row_items item_row_def item_of_def comp_def)
  have b': "map item_price (inv_items x) = map in_price ?its"
    by (simp add: x created_row_items item_row_def item_of_def comp_def)
  have c: "inv_subtotal x =
      foldl (\<lambda>sum item. add sum (mul (in_quantity item) (in_price item))) (Num 0) ?its"
    by (simp add: x created_row_def invoice_row_def subtotal_of_def)
  have d: "inv_tax x = div100 (mul (inv_subtotal x) (cd_taxRate data))"
    by (simp add: x created_row_def invoice_row_def)
  have e: "inv_total x = add (inv_subtotal x) (inv_tax x)"
    by (simp add: x created_row_def invoice_row_def)
  have f: "(\<forall>it \<in> set (inv_items x).
                  item_amount it = Num (of_int (item_quantity it) * value_of (item_price it)))
              \<and> inv_subtotal x = Num ?S
              \<and> (\<forall>t. cd_taxRate data = Num t \<and> ?S * t \<in> \<int> \<and> \<bar>?S * t\<bar> < 2 ^ 53
                     \<and> ?S * t / 100 \<in> \<int> \<and> \<bar>?S + ?S * t / 100\<bar> < 2 ^ 53
                   \<longrightarrow> inv_tax x = Num (?S * t / 100) \<and> inv_total x = Num (?S + ?S * t / 100))"
    if int: "\<forall>i \<in> set ?its. integer_number (in_quantity i) \<and> integer_number (in_price i)"
      and bound: "(\<Sum>i\<leftarrow>?its. \<bar>exact_amount i\<bar>) < 2 ^ 53"
  proof (intro conjI allI impI ballI)
    fix it
    assume "it \<in> set (inv_items x)"
    then obtain i where i: "i \<in> set ?its" and it: "it = item_row (item_of i)"
      by (auto simp: x created_row_items)
    from int i have qi: "integer_number (in_quantity i)" and pi: "integer_number (in_price i)"
      by simp_all
    from amount_bound [OF i bound] have "\<bar>value_of (in_quantity i) * value_of (in_price i)\<bar> < 2 ^ 53"
      by (simp add: exact_amount_def)
    from mul_exact [OF qi pi this] Int_value_integer [OF qi]
    show "item_amount it = Num (of_int (item_quantity it) * value_of (item_price it))"
      by (simp add: it item_row_def item_of_def)
  next
    show s: "inv_subtotal x = Num ?S"
      using subtotal_of_exact [OF int bound] by (simp add: x created_row_def invoice_row_def)
    fix t
    assume h: "cd_taxRate data = Num t \<and> ?S * t \<in> \<int> \<and> \<bar>?S * t\<bar> < 2 ^ 53
        \<and> ?S * t / 100 \<in> \<int> \<and> \<bar>?S + ?S * t / 100\<bar> < 2 ^ 53"
    note te = tax_exact [OF sum_exact_Ints [OF int], of t]
    from h te(1) d s show tx: "inv_tax x = Num (?S * t / 100)"
      by simp
    from h te(2) e s tx show "inv_total x = Num (?S + ?S * t / 100)"
      by simp
  qed
  from a b b' c d e f show ?thesis by blast
qed

text \<open>
  The scenario of the claim: items A (2 at 100) and B (1 at 50) with tax rate 10 give
  subtotal 250, tax 25 and total 275.
\<close>

theorem C1_witness:
  "create_invoice ex_env ''alice'' ex_body ex_db =
     (Success ex_invoice, \<lparr>invoices = [ex_invoice], settings = ex_settings 8\<rparr>)
   \<and> createInvoiceSchema ex_body = Some ex_data
   \<and> ex_invoice \<in> set (invoices \<lparr>invoices = [ex_invoice], settings = ex_settings 8\<rparr>)
   \<and> ex_invoice \<notin> set (invoices ex_db)
   \<and> map in_quantity (cd_items ex_data) = [Num 2, Num 1]
   \<and> map in_price (cd_items ex_data) = [Num 100, Num 50]
   \<and> cd_taxRate ex_data = Num 10
   \<and> map item_quantity (inv_items ex_invoice) = [2, 1]
   \<and> map item_amount (inv_items ex_invoice) = [Num 200, Num 50]
   \<and> inv_subtotal ex_invoice = Num 250
   \<and> inv_tax ex_invoice = Num 25
   \<and> inv_total ex_invoice = Num 275"
proof -
  let ?S = "\<Sum>i\<leftarrow>cd_items ex_data. exact_amount i"
  have h3: "ex_invoice \<in> set (invoices \<lparr>invoices = [ex_invoice], settings = ex_settings 8\<rparr>)"
    by simp
  have h4: "ex_invoice \<notin> set (invoices ex_db)"
    by (simp add: ex_db_def)
  note t = C1_create_totals [OF ex_create ex_parse h3 h4]
  have q: "map in_quantity (cd_items ex_data) = [Num 2, Num 1]"
    and p: "map in_price (cd_items ex_data) = [Num 100, Num 50]"
    and r: "cd_taxRate ex_data = Num 10"
    by (simp_all add: ex_data_def)
  have int: "\<forall>i \<in> set (cd_items ex_data). integer_number (in_quantity i) \<and> integer_number (in_price i)"
    by (simp add: ex_data_def)
  have S: "?S = 250"
    by (simp add: ex_data_def exact_amount_def)
  have bound: "(\<Sum>i\<leftarrow>cd_items ex_data. \<bar>exact_amount i\<bar>) < 2 ^ 53"
    by (simp add: ex_data_def exact_amount_def)
  have tax: "?S * 10 \<in> \<int>" "\<bar>?S * 10\<bar> < 2 ^ 53" "?S * 10 / 100 \<in> \<int>"
    "\<bar>?S + ?S * 10 / 100\<bar> < 2 ^ 53"
    by (simp_all add: S)
  from t int bound have "inv_subtotal ex_invoice = Num ?S"
    by blast
  then have s: "inv_subtotal ex_invoice = Num 250"
    by (simp add: S)
  from t int bound r tax
  have "inv_tax ex_invoice = Num (?S * 10 / 100) \<and> inv_total ex_invoice = Num (?S + ?S * 10 / 100)"
    by blast
  then have x: "inv_tax ex_invoice = Num 25" and y: "inv_total ex_invoice = Num 275"
    by (simp_all add: S)
  from t have "map item_quantity (inv_items ex_invoice)
      = map (\<lambda>i. Int_value (in_quantity i)) (cd_items ex_data)"
    by blast
  then have n: "map item_quantity (inv_items ex_invoice) = [2, 1]"
    by (simp add: ex_data_def)
  from t int bound
  have "\<forall>it \<in> set (inv_items ex_invoice).
      item_amount it = Num (of_int (item_quantity it) * value_of (item_price it))"
    by blast
  then have a: "map item_amount (inv_items ex_invoice) = [Num 200, Num 50]"
    by (simp add: ex_invoice_def)
  from ex_create ex_parse h3 h4 q p r n a s x y show ?thesis
    by (intro conjI)
qed

text \<open>
  The claim as stated fails in two ways. Quantity 1.5 at price 10 is stored as quantity 1
  with amount 15, which is not 1 * 10. And with prices 0.1 and 0.2 the stored subtotal is the
  double 0.30000000000000004, which is not the sum of the two stored amounts.
\<close>

theorem C1_counterexample:
  "create_invoice ex_env ''alice'' ex_body_half ex_db =
     (Success ex_invoice_half, \<lparr>invoices = [ex_invoice_half], settings = ex_settings 8\<rparr>)
   \<and> map item_quantity (inv_items ex_invoice_half) = [1]
   \<and> map item_price (inv_items ex_invoice_half) = [Num 10]
   \<and> map item_amount (inv_items ex_invoice_half) = [Num 15]
   \<and> Num 15 \<noteq> Num (1 * 10)
   \<and> create_invoice ex_env ''alice'' ex_body_tenths ex_db =
       (Success ex_invoice_tenths, \<lparr>invoices = [ex_invoice_tenths], settings = ex_settings 8\<rparr>)
   \<and> map item_amount (inv_items ex_invoice_tenths)
       = [Num (3602879701896397 / 36028797018963968), Num (3602879701896397 / 18014398509481984)]
   \<and> inv_subtotal ex_invoice_tenths = Num (1351079888211149 / 4503599627370496)
   \<and> Num (1351079888211149 / 4503599627370496)
       \<noteq> Num (3602879701896397 / 36028797018963968 + 3602879701896397 / 18014398509481984)"
  using ex_create_half ex_create_tenths
  by (simp add: ex_invoice_half_def ex_invoice_tenths_def)

section \<open>Number and counter of a created invoice\<close>

text \<open>
  Claim C2, as the code has it. A create call that answers success for a tenant whose settings
  row holds prefix \<open>p\<close> and counter \<open>n\<close> has inserted an invoice whose number is the
  effective prefix followed by \<open>n\<close> padded with zeros to width 5, and has advanced the
  counter to \<open>n + 1\<close>. The effective prefix is \<open>p\<close>, or \<open>INV\<close> when \<open>p\<close> is null or
  the empty string. For a counter that is not negative the padded part is a decimal numeral
  of value \<open>n\<close> and of length at least 5, exactly 5 below 100000.
\<close>

theorem C2_number_and_counter:
  assumes "create_invoice e u body d = (Success x, d')"
    and "settings_of d u = Some s"
  shows "inv_number x =
           (case set_invoicePrefix s of None \<Rightarrow> ''INV'' | Some p \<Rightarrow> if p = [] then ''INV'' else p)
           @ padStart 5 (CHR ''0'') (String (set_nextInvoiceNumber s))
       \<and> x \<in> set (invoices d')
       \<and> map_option set_nextInvoiceNumber (settings_of d' u) = Some (set_nextInvoiceNumber s + 1)
       \<and> (0 \<le> set_nextInvoiceNumber s \<longrightarrow>
            decimal_value (padStart 5 (CHR ''0'') (String (set_nextInvoiceNumber s)))
              = nat (set_nextInvoiceNumber s)
          \<and> set (padStart 5 (CHR ''0'') (String (set_nextInvoiceNumber s))) \<subseteq> set ''0123456789''
          \<and> 5 \<le> length (padStart 5 (CHR ''0'') (String (set_nextInvoiceNumber s)))
          \<and> (set_nextInvoiceNumber s < 100000 \<longrightarrow>
                length (padStart 5 (CHR ''0'') (String (set_nextInvoiceNumber s))) = 5))"
proof -
  from create_invoice_cases [OF assms(1)] assms(2)
  obtain data where x: "x = created_row e u data s"
    and inv: "invoices d' = invoices d @ [x]"
    and set: "settings d' = map (increment u) (settings d)"
    by (auto simp: settings_of_def)
  have a: "inv_number x =
           (case set_invoicePrefix s of None \<Rightarrow> ''INV'' | Some p \<Rightarrow> if p = [] then ''INV'' else p)
           @ padStart 5 (CHR ''0'') (String (set_nextInvoiceNumber s))"
    by (simp add: x created_row_def invoice_row_def invoiceNumber_def invoicePrefix_def)
  have b: "x \<in> set (invoices d')"
    by (simp add: inv)
  have c: "map_option set_nextInvoiceNumber (settings_of d' u) = Some (set_nextInvoiceNumber s + 1)"
    using assms(2) find_userId [of u "settings d" s]
    by (simp add: settings_of_def set find_increment_same increment_def)
  have d: "decimal_value (padStart 5 (CHR ''0'') (String (set_nextInvoiceNumber s)))
              = nat (set_nextInvoiceNumber s)"
    if "0 \<le> set_nextInvoiceNumber s"
    using that by (rule decimal_value_padStart)
  have e: "set (padStart 5 (CHR ''0'') (String (set_nextInvoiceNumber s))) \<subseteq> set ''0123456789''"
    if "0 \<le> set_nextInvoiceNumber s"
    using that padStart_digits [of _ 5 "nat (set_nextInvoiceNumber s)"]
    by (auto simp: String_def)
  have f: "5 \<le> length (padStart 5 (CHR ''0'') (String (set_nextInvoiceNumber s)))"
    by (simp add: length_padStart)
  have g: "length (padStart 5 (CHR ''0'') (String (set_nextInvoiceNumber s))) = 5"
    if "0 \<le> set_nextInvoiceNumber s" "set_nextInvoiceNumber s < 100000"
  proof -
    from that have "nat (set_nextInvoiceNumber s) < 10 ^ 5" by simp
    then have "length (digits (nat (set_nextInvoiceNumber s))) \<le> 5"
      by (intro length_digits) simp_all
    with that show ?thesis
      by (simp add: length_padStart String_def)
  qed
  from a b c d e f g show ?thesis by blast
qed

text \<open>The scenario of the claim: prefix \<open>INV\<close> and counter 7 give \<open>INV00007\<close>, and the
  counter advances to 8.\<close>

theorem C2_witness:
  "create_invoice ex_env ''alice'' ex_body ex_db =
     (Success ex_invoice, \<lparr>invoices = [ex_invoice], settings = ex_settings 8\<rparr>)
   \<and> settings_of ex_db ''alice'' = Some (hd (ex_settings 7))
   \<and> set_invoicePrefix (hd (ex_settings 7)) = Some ''INV''
   \<and> set_nextInvoiceNumber (hd (ex_settings 7)) = 7
   \<and> inv_number ex_invoice = ''INV00007''
   \<and> map_option set_nextInvoiceNumber
        (settings_of \<lparr>invoices = [ex_invoice], settings = ex_settings 8\<rparr> ''alice'') = Some 8
   \<and> decimal_value ''00007'' = 7"
proof -
  from C2_number_and_counter [OF ex_create ex_settings_of]
  have "inv_number ex_invoice = ''INV'' @ padStart 5 (CHR ''0'') (String 7)"
    and "map_option set_nextInvoiceNumber
        (settings_of \<lparr>invoices = [ex_invoice], settings = ex_settings 8\<rparr> ''alice'') = Some (7 + 1)"
    and "decimal_value (padStart 5 (CHR ''0'') (String 7)) = nat 7"
    by (simp_all add: ex_settings_def)
  moreover have "padStart 5 (CHR ''0'') (String 7) = ''00007''"
    by (simp add: eval_defs)
  ultimately show ?thesis
    using ex_create ex_settings_of by (simp add: ex_settings_def)
qed

text \<open>
  The claim as stated, with the default only for an absent prefix, fails for a settings row
  whose prefix is present and empty: the number is \<open>INV00007\<close>, not \<open>00007\<close>. And a
  create call whose counter update is rejected has stored an invoice numbered from counter 7
  while the counter is still 7 afterwards.
\<close>

theorem C2_counterexample:
  "settings_of ex_db_blank ''alice''
     = Some \<lparr>set_userId = ''alice'', set_invoicePrefix = Some [], set_nextInvoiceNumber = 7\<rparr>
   \<and> fst (create_invoice ex_env ''alice'' ex_body ex_db_blank) = Success ex_invoice
   \<and> inv_number ex_invoice = ''INV00007''
   \<and> inv_number ex_invoice \<noteq> [] @ padStart 5 (CHR ''0'') (String 7)
   \<and> create_invoice ex_env_fail ''alice'' ex_body ex_db =
       (Next PrismaError, \<lparr>invoices = [ex_invoice], settings = ex_settings 7\<rparr>)
   \<and> settings ex_db = ex_settings 7"
  using ex_create_fail
  by (simp add: eval_defs settings_of_def ex_env_def ex_body_def ex_db_blank_def ex_invoice_def
      ex_db_def)

section \<open>Numbering along a run\<close>

text \<open>
  Claim C3, as the code has it. Requests are served one after the other. Along any run,
  the stored invoices keep pairwise distinct (tenant, number) keys, and a tenant's counter
  never decreases while its prefix stays. The create calls of a tenant that answer success
  receive consecutive counter values: with a counter that is not negative their numbers, read
  as numerals after the prefix, are strictly increasing in the order of the calls and no
  number occurs twice, whatever is deleted in between.
\<close>

theorem C3_numbering:
  assumes "run reqs d = (resps, d')"
    and "settings_of d u = Some s"
    and "0 \<le> set_nextInvoiceNumber s"
    and "distinct (map invoice_key (invoices d))"
  shows "distinct (map invoice_key (invoices d'))
       \<and> (\<exists>s'. settings_of d' u = Some s'
              \<and> set_nextInvoiceNumber s \<le> set_nextInvoiceNumber s'
              \<and> set_invoicePrefix s' = set_invoicePrefix s)
       \<and> created_numbers u reqs resps = numbers_from s (length (created_numbers u reqs resps))
       \<and> map (\<lambda>z. decimal_value (drop (length (invoicePrefix s)) z)) (created_numbers u reqs resps)
           = [nat (set_nextInvoiceNumber s) ..<
              nat (set_nextInvoiceNumber s) + length (created_numbers u reqs resps)]
       \<and> sorted_wrt (<)
            (map (\<lambda>z. decimal_value (drop (length (invoicePrefix s)) z)) (created_numbers u reqs resps))
       \<and> distinct (created_numbers u reqs resps)"
proof -
  let ?m = "length (created_numbers u reqs resps)"
  have a: "distinct (map invoice_key (invoices d'))"
    using assms(1,4) by (rule run_distinct)
  from run_created [OF assms(1,2)]
  have c: "created_numbers u reqs resps = numbers_from s ?m"
    and s': "settings_of d' u = Some (s\<lparr>set_nextInvoiceNumber := set_nextInvoiceNumber s + int ?m\<rparr>)"
    by simp_all
  from s' have b: "\<exists>s'. settings_of d' u = Some s'
              \<and> set_nextInvoiceNumber s \<le> set_nextInvoiceNumber s'
              \<and> set_invoicePrefix s' = set_invoicePrefix s"
    by simp
  have v: "map (\<lambda>z. decimal_value (drop (length (invoicePrefix s)) z)) (created_numbers u reqs resps)
           = [nat (set_nextInvoiceNumber s) ..< nat (set_nextInvoiceNumber s) + ?m]"
    using numbers_from_values [OF assms(3), of ?m] c by simp
  have w: "sorted_wrt (<)
      (map (\<lambda>z. decimal_value (drop (length (invoicePrefix s)) z)) (created_numbers u reqs resps))"
    unfolding v by simp
  have e: "distinct (created_numbers u reqs resps)"
    using distinct_numbers_from [OF assms(3), of ?m] c by simp
  from a b c v w e show ?thesis by blast
qed

text \<open>Create, delete, create: the second invoice gets \<open>INV00008\<close>, not the number of the
  deleted one.\<close>

theorem C3_witness:
  "run ex_run ex_db =
     ([Success ex_invoice, SuccessNull,
       Success (ex_invoice\<lparr>inv_id := ''id-2'', inv_number := ''INV00008''\<rparr>)],
      \<lparr>invoices = [ex_invoice\<lparr>inv_id := ''id-2'', inv_number := ''INV00008''\<rparr>],
       settings = ex_settings 9\<rparr>)
   \<and> settings_of ex_db ''alice'' = Some (hd (ex_settings 7))
   \<and> 0 \<le> set_nextInvoiceNumber (hd (ex_settings 7))
   \<and> distinct (map invoice_key (invoices ex_db))
   \<and> created_numbers ''alice'' ex_run
        [Success ex_invoice, SuccessNull,
         Success (ex_invoice\<lparr>inv_id := ''id-2'', inv_number := ''INV00008''\<rparr>)]
       = [''INV00007'', ''INV00008'']
   \<and> distinct [''INV00007'', ''INV00008'']
   \<and> map (\<lambda>z. decimal_value (drop (length (invoicePrefix (hd (ex_settings 7)))) z))
        [''INV00007'', ''INV00008''] = [7 ..< 7 + 2]"
proof -
  have h3: "0 \<le> set_nextInvoiceNumber (hd (ex_settings 7))"
    by (simp add: ex_settings_def)
  have h4: "distinct (map invoice_key (invoices ex_db))"
    by (simp add: ex_db_def)
  have c: "created_numbers ''alice'' ex_run
        [Success ex_invoice, SuccessNull,
         Success (ex_invoice\<lparr>inv_id := ''id-2'', inv_number := ''INV00008''\<rparr>)]
       = [''INV00007'', ''INV00008'']"
    by (simp add: created_numbers_def ex_run_def ex_invoice_def)
  note t = C3_numbering [OF ex_run_result ex_settings_of h3 h4]
  from t have "distinct (created_numbers ''alice'' ex_run
        [Success ex_invoice, SuccessNull,
         Success (ex_invoice\<lparr>inv_id := ''id-2'', inv_number := ''INV00008''\<rparr>)])"
    by (elim conjE)
  then have d: "distinct [''INV00007'', ''INV00008'']"
    unfolding c .
  from t have "map (\<lambda>z. decimal_value (drop (length (invoicePrefix (hd (ex_settings 7)))) z))
        (created_numbers ''alice'' ex_run
          [Success ex_invoice, SuccessNull,
           Success (ex_invoice\<lparr>inv_id := ''id-2'', inv_number := ''INV00008''\<rparr>)])
      = [nat (set_nextInvoiceNumber (hd (ex_settings 7))) ..<
         nat (set_nextInvoiceNumber (hd (ex_settings 7))) +
         length (created_numbers ''alice'' ex_run
          [Success ex_invoice, SuccessNull,
           Success (ex_invoice\<lparr>inv_id := ''id-2'', inv_number := ''INV00008''\<rparr>)])]"
    by (elim conjE)
  then have v: "map (\<lambda>z. decimal_value (drop (length (invoicePrefix (hd (ex_settings 7)))) z))
        [''INV00007'', ''INV00008''] = [7 ..< 7 + 2]"
    unfolding c by (simp add: ex_settings_def)
  from ex_run_result ex_settings_of h3 h4 c d v show ?thesis
    by (intro conjI)
qed

text \<open>
  A number is reused after a deletion when the create call that first used it failed at the
  counter update: the invoice \<open>id-1\<close> is stored with \<open>INV00007\<close> and the counter stays 7;
  after that invoice is deleted the next create call stores invoice \<open>id-2\<close> with
  \<open>INV00007\<close> again.
\<close>

theorem C3_counterexample:
  "run ex_run_fail ex_db =
     ([Next PrismaError, SuccessNull, Success (ex_invoice\<lparr>inv_id := ''id-2''\<rparr>)],
      \<lparr>invoices = [ex_invoice\<lparr>inv_id := ''id-2''\<rparr>], settings = ex_settings 8\<rparr>)
   \<and> snd (run (take 1 ex_run_fail) ex_db) = \<lparr>invoices = [ex_invoice], settings = ex_settings 7\<rparr>
   \<and> snd (run (take 2 ex_run_fail) ex_db) = \<lparr>invoices = [], settings = ex_settings 7\<rparr>
   \<and> inv_number ex_invoice = ''INV00007''
   \<and> inv_number (ex_invoice\<lparr>inv_id := ''id-2''\<rparr>) = ''INV00007''
   \<and> inv_id ex_invoice \<noteq> inv_id (ex_invoice\<lparr>inv_id := ''id-2''\<rparr>)"
  by (simp add: ex_run_fail_def ex_create_fail ex_delete ex_create_reuse)
    (simp add: ex_invoice_def)

section \<open>Outcomes of a create call\<close>

text \<open>
  Claim C4, as the code has it. The insert and the counter update are two separate awaited
  calls, with no transaction around them. A create call ends in one of three ways: it fails
  before any write and the database is unchanged; or it answers success, the invoice (with its
  items) is inserted and the tenant's counter is incremented; or the insert succeeded and the
  counter update was rejected, and then the invoice stays, the counter is not advanced and
  the call answers with the error. Nothing is rolled back.
\<close>

theorem C4_create_outcomes:
  assumes "create_invoice e u body d = (r, d')"
  shows "(d' = d \<and> (\<forall>x. r \<noteq> Success x))
       \<or> (\<exists>x. r = Success x \<and> inv_userId x = u \<and> invoices d' = invoices d @ [x]
              \<and> settings d' = map (increment u) (settings d))
       \<or> (\<exists>x. r = Next PrismaError \<and> throws e SettingsUpdate \<and> inv_userId x = u
              \<and> invoices d' = invoices d @ [x] \<and> settings d' = settings d)"
proof -
  have u: "inv_userId (created_row e u data s) = u" for data s
    by (simp add: created_row_def invoice_row_def)
  from create_invoice_cases [OF assms] u show ?thesis
    by blast
qed

text \<open>The successful outcome, on the example request.\<close>

theorem C4_witness:
  "create_invoice ex_env ''alice'' ex_body ex_db =
     (Success ex_invoice, \<lparr>invoices = [ex_invoice], settings = ex_settings 8\<rparr>)
   \<and> invoices \<lparr>invoices = [ex_invoice], settings = ex_settings 8\<rparr> = invoices ex_db @ [ex_invoice]
   \<and> settings \<lparr>invoices = [ex_invoice], settings = ex_settings 8\<rparr>
       = map (increment ''alice'') (settings ex_db)"
proof -
  from C4_create_outcomes [OF ex_create]
  have "invoices \<lparr>invoices = [ex_invoice], settings = ex_settings 8\<rparr> = invoices ex_db @ [ex_invoice]
      \<and> settings \<lparr>invoices = [ex_invoice], settings = ex_settings 8\<rparr>
          = map (increment ''alice'') (settings ex_db)"
    by (auto simp: ex_db_def)
  with ex_create show ?thesis by simp
qed

text \<open>
  Atomicity fails when the counter update is rejected: from a database without invoices and
  with counter 7, the call answers with an error, the invoice is stored and the counter is
  still 7.
\<close>

theorem C4_counterexample:
  "create_invoice ex_env_fail ''alice'' ex_body ex_db =
     (Next PrismaError, \<lparr>invoices = [ex_invoice], settings = ex_settings 7\<rparr>)
   \<and> invoices ex_db = []
   \<and> settings ex_db = ex_settings 7"
  using ex_create_fail by (simp add: ex_db_def)

section \<open>Status changes\<close>

text \<open>
  Claim C5 does not hold of the code: a change inside the claim's table does not succeed.
  The body \<open>{status: "PAID"}\<close> parses, the invoice is UNPAID, and the handler answers with
  status 500 from its catch block; the invoice is still UNPAID.
\<close>

theorem C5_status_change_fails:
  "updateInvoiceSchema ex_env (status_body ''PAID'') = Some (no_update\<lparr>ud_status := Some PAID\<rparr>)
   \<and> inv_status (ex_stored UNPAID None None) = UNPAID
   \<and> update_invoice ex_env ''alice'' ''id-1'' (status_body ''PAID'')
        (ex_db_with (ex_stored UNPAID None None))
       = (Status 500 ''Gagal memperbarui faktur'', ex_db_with (ex_stored UNPAID None None))"
  by (simp add: update_invoice_answers ex_parse_status ex_stored_def)

section \<open>Paid and cancelled invoices\<close>

text \<open>
  Claim C6 does not hold of the code as to the answer: \<open>{notes: "x"}\<close> on a PAID invoice
  leaves the invoice unchanged, but the answer is the catch block's status 500, not the
  guard's refusal.
\<close>

theorem C6_guard_not_reached:
  "updateInvoiceSchema ex_env (notes_body ''x'') = Some (no_update\<lparr>ud_notes := Some ''x''\<rparr>)
   \<and> inv_status (ex_stored PAID None (Some (Clock 5))) = PAID
   \<and> update_invoice ex_env ''alice'' ''id-1'' (notes_body ''x'')
        (ex_db_with (ex_stored PAID None (Some (Clock 5))))
       = (Status 500 ''Gagal memperbarui faktur'',
          ex_db_with (ex_stored PAID None (Some (Clock 5))))
   \<and> Status 500 ''Gagal memperbarui faktur''
       \<noteq> Status 400 ''Faktur yang sudah lunas tidak dapat diubah statusnya''"
  by (simp add: update_invoice_answers ex_parse_notes ex_stored_def)

section \<open>The paid timestamp\<close>


section \<open>Ownership and unknown ids on update\<close>

text \<open>
  Claim C8 does not hold of the code as to the answer: for an id that no invoice has, and for
  caller \<open>bob\<close> on the invoice of tenant \<open>alice\<close>, the handler answers with status 500,
  not with 404. No invoice is modified.
\<close>

theorem C8_not_found_not_answered:
  "updateInvoiceSchema ex_env (status_body ''CANCELLED'')
     = Some (no_update\<lparr>ud_status := Some CANCELLED\<rparr>)
   \<and> find (\<lambda>r. inv_id r = ''id-9'') (invoices (ex_db_with (ex_stored UNPAID None None))) = None
   \<and> update_invoice ex_env ''alice'' ''id-9'' (status_body ''CANCELLED'')
        (ex_db_with (ex_stored UNPAID None None))
       = (Status 500 ''Gagal memperbarui faktur'', ex_db_with (ex_stored UNPAID None None))
   \<and> inv_userId (ex_stored UNPAID None None) = ''alice''
   \<and> update_invoice ex_env ''bob'' ''id-1'' (status_body ''CANCELLED'')
        (ex_db_with (ex_stored UNPAID None None))
       = (Status 500 ''Gagal memperbarui faktur'', ex_db_with (ex_stored UNPAID None None))
   \<and> Status 500 ''Gagal memperbarui faktur'' \<noteq> Status 404 ''Faktur tidak ditemukan''"
  by (simp add: update_invoice_answers ex_parse_status ex_stored_def ex_db_with_def
      ex_invoice_def)

section \<open>Validation on create\<close>




section \<open>Notes and payment notes\<close>

text \<open>
  Claim C10 does not hold of the code: a body with \<open>paymentNote\<close> on an UNPAID invoice with
  notes \<open>old\<close> is answered with status 500 and the stored notes are still \<open>old\<close>.
\<close>

theorem C10_paymentNote_not_stored:
  "updateInvoiceSchema ex_env (paymentNote_body (JStr ''transfer''))
     = Some (no_update\<lparr>ud_notes := Some ''x'', ud_paymentNote := Some (Some ''transfer'')\<rparr>)
   \<and> inv_status (ex_stored UNPAID (Some ''old'') None) = UNPAID
   \<and> update_invoice ex_env ''alice'' ''id-1'' (paymentNote_body (JStr ''transfer''))
        (ex_db_with (ex_stored UNPAID (Some ''old'') None))
       = (Status 500 ''Gagal memperbarui faktur'',
          ex_db_with (ex_stored UNPAID (Some ''old'') None))
   \<and> inv_notes (ex_stored UNPAID (Some ''old'') None) = Some ''old''"
  by (simp add: update_invoice_answers ex_parse_paymentNote ex_stored_def)

end
